theory Spec2Isabelle
  imports Main "HOL-Library.Word"
begin

unbundle bit_operations_syntax

section \<open>Data model of the SWR screen/resource layer\<close>

text \<open>
  The texture layout engine of the software rasterizer's screen module
  (\<^verbatim>\<open>swr_texture_layout\<close> and its callers).  C \<^verbatim>\<open>unsigned\<close> and
  \<^verbatim>\<open>uint32_t\<close> values are 32-bit words, \<^verbatim>\<open>size_t\<close> is a 64-bit word
  (the rasterizer is built for x86-64 only); all arithmetic wraps as in C.
\<close>

type_synonym u32 = "32 word"
type_synonym size_t = "64 word"
type_synonym addr = nat

text \<open>
  The two format enumerations are declared outside this module.  A format is
  represented by its enumerator name: \<open>PIPE_FORMAT ''R8_UINT''\<close> stands for
  \<^verbatim>\<open>PIPE_FORMAT_R8_UINT\<close>, \<open>SWR ''R8_UINT''\<close> for the rasterizer's
  \<^verbatim>\<open>R8_UINT\<close>, and \<open>SWR_FORMAT_NONE\<close> for the value \<^verbatim>\<open>(SWR_FORMAT)-1\<close>.
\<close>

datatype pipe_format = PIPE_FORMAT string

datatype SWR_FORMAT = SWR string | SWR_FORMAT_NONE

datatype pipe_texture_target =
    PIPE_BUFFER
  | PIPE_TEXTURE_1D
  | PIPE_TEXTURE_2D
  | PIPE_TEXTURE_3D
  | PIPE_TEXTURE_CUBE
  | PIPE_TEXTURE_RECT
  | PIPE_TEXTURE_1D_ARRAY
  | PIPE_TEXTURE_2D_ARRAY
  | PIPE_TEXTURE_CUBE_ARRAY

text \<open>
  The \<^verbatim>\<open>bind\<close> bit mask is a set of flags; \<^verbatim>\<open>bind & (A | B)\<close> is non-zero
  exactly when the set meets \<open>{A, B}\<close>.
\<close>

datatype pipe_bind =
    PIPE_BIND_DEPTH_STENCIL
  | PIPE_BIND_RENDER_TARGET
  | PIPE_BIND_SAMPLER_VIEW
  | PIPE_BIND_VERTEX_BUFFER
  | PIPE_BIND_DISPLAY_TARGET
  | PIPE_BIND_SCANOUT
  | PIPE_BIND_SHARED

text \<open>
  The tile mode: this module only ever stores \<^verbatim>\<open>SWR_TILE_NONE\<close>;
  \<open>SWR_TILE_OTHER\<close> stands for the modes it never sets.
\<close>

datatype SWR_TILE_MODE = SWR_TILE_NONE | SWR_TILE_OTHER

record pipe_resource =
  format :: pipe_format
  width0 :: u32
  height0 :: u32
  depth0 :: u32
  array_size :: u32
  target :: pipe_texture_target
  last_level :: nat
  nr_samples :: u32
  bind :: "pipe_bind set"

text \<open>
  The fields of \<^verbatim>\<open>SWR_SURFACE_STATE\<close> that the screen module writes.
  \<open>swr_format\<close> is the field \<^verbatim>\<open>format\<close> and \<open>surface_type\<close> the field
  \<^verbatim>\<open>type\<close>; \<open>pBaseAddress = None\<close> is the null pointer.
\<close>

record SWR_SURFACE_STATE =
  pBaseAddress :: "addr option"
  surface_type :: nat
  swr_format :: SWR_FORMAT
  width :: u32
  height :: u32
  depth :: u32
  numSamples :: u32
  pitch :: u32
  qpitch :: u32
  tileMode :: SWR_TILE_MODE
  halign :: u32
  valign :: u32

record swr_resource =
  base :: pipe_resource
  has_depth :: bool
  has_stencil :: bool
  swr :: SWR_SURFACE_STATE
  secondary :: SWR_SURFACE_STATE
  display_target :: "nat option"
  mip_offsets :: "nat \<Rightarrow> u32"
  secondary_mip_offsets :: "nat \<Rightarrow> u32"

text \<open>
  What \<^verbatim>\<open>util_format_description\<close> tells the layout code about a format:
  the block footprint in pixels, the block size in bytes, whether the layout
  is a compressed one, and whether it carries depth or stencil.
\<close>

record util_format_description =
  block_width :: u32
  block_height :: u32
  block_size :: u32
  compressed :: bool
  depth_channel :: bool
  stencil_channel :: bool

text \<open>
  The collaborators of the module that live outside it: the format
  description table, the macrotile knobs, the target-type conversion and
  texture test of the resource header, the rasterizer's offset routine
  (called with every coordinate zero, so only the level and the surface state
  vary), the window system's display-target entry points, and the
  enumerator of \<^verbatim>\<open>SWR_FORMAT\<close> whose value is 0, which is what a zero-filled
  surface state holds as its format.
\<close>

record swr_env =
  u_format_table :: "pipe_format \<Rightarrow> util_format_description"
  KNOB_MACROTILE_X_DIM :: u32
  KNOB_MACROTILE_Y_DIM :: u32
  swr_convert_target_type :: "pipe_texture_target \<Rightarrow> nat"
  swr_resource_is_texture :: "pipe_resource \<Rightarrow> bool"
  ComputeSurfaceOffset :: "nat \<Rightarrow> SWR_SURFACE_STATE \<Rightarrow> u32"
  displaytarget_create ::
    "pipe_bind set \<Rightarrow> pipe_format \<Rightarrow> u32 \<Rightarrow> u32 \<Rightarrow> u32 \<Rightarrow> (nat \<times> u32) option"
  displaytarget_map :: "nat \<Rightarrow> addr option"
  SWR_FORMAT_zero :: SWR_FORMAT

text \<open>
  The allocator.  \<open>malloc_result h n size\<close> is what the \<open>n\<close>-th call of
  \<^verbatim>\<open>AlignedMalloc\<close> returns when asked for \<open>size\<close> bytes (\<open>None\<close> is
  a null pointer, the allocation failed); \<open>allocations\<close> logs every call,
  oldest first, and \<open>released\<close> every block handed back.  \<open>calloc_ok\<close>
  tells whether \<^verbatim>\<open>CALLOC_STRUCT\<close> succeeds.
\<close>

record heap =
  malloc_result :: "nat \<Rightarrow> size_t \<Rightarrow> addr option"
  allocations :: "(size_t \<times> addr option) list"
  released :: "addr list"
  calloc_ok :: bool

datatype layout_error = Unreachable_format_block_size | Assertion_failed

section \<open>Helpers of the utility headers\<close>

text \<open>
  Modelled from the spec: \<^verbatim>\<open>align\<close> is defined in a utility header that is
  not part of the module; the spec reads it as "aligned up to" a multiple of
  the alignment.
\<close>

definition align :: "u32 \<Rightarrow> u32 \<Rightarrow> u32" where
  "align v a = ((v + a - 1) div a) * a"

text \<open>
  Modelled from the spec: \<^verbatim>\<open>u_minify\<close> is defined in a utility header;
  the spec reads it as "halve, floor, minimum 1", once per level.  Halving
  32 times or more leaves 0, hence the result 1.
\<close>

definition u_minify :: "u32 \<Rightarrow> nat \<Rightarrow> u32" where
  "u_minify v levels = max 1 (drop_bit levels v)"

text \<open>
  Modelled from the spec: the \<^verbatim>\<open>util_format_*\<close> queries are defined in the
  format header; the spec names them \<open>bytesPerBlock\<close>, \<open>numBlocksX\<close>,
  \<open>numBlocksY\<close> and \<open>strideInBytes\<close>: the number of blocks that cover an
  extent, and the bytes of one row of blocks.
\<close>

definition util_format_get_blockwidth :: "swr_env \<Rightarrow> pipe_format \<Rightarrow> u32" where
  "util_format_get_blockwidth env fmt = block_width (u_format_table env fmt)"

definition util_format_get_blockheight :: "swr_env \<Rightarrow> pipe_format \<Rightarrow> u32" where
  "util_format_get_blockheight env fmt = block_height (u_format_table env fmt)"

definition util_format_get_blocksize :: "swr_env \<Rightarrow> pipe_format \<Rightarrow> u32" where
  "util_format_get_blocksize env fmt = block_size (u_format_table env fmt)"

definition util_format_get_nblocksx :: "swr_env \<Rightarrow> pipe_format \<Rightarrow> u32 \<Rightarrow> u32" where
  "util_format_get_nblocksx env fmt x =
     (x + util_format_get_blockwidth env fmt - 1) div util_format_get_blockwidth env fmt"

definition util_format_get_nblocksy :: "swr_env \<Rightarrow> pipe_format \<Rightarrow> u32 \<Rightarrow> u32" where
  "util_format_get_nblocksy env fmt y =
     (y + util_format_get_blockheight env fmt - 1) div util_format_get_blockheight env fmt"

definition util_format_get_stride :: "swr_env \<Rightarrow> pipe_format \<Rightarrow> u32 \<Rightarrow> u32" where
  "util_format_get_stride env fmt w =
     util_format_get_nblocksx env fmt w * util_format_get_blocksize env fmt"

definition util_format_is_compressed :: "swr_env \<Rightarrow> pipe_format \<Rightarrow> bool" where
  "util_format_is_compressed env fmt = compressed (u_format_table env fmt)"

definition util_format_has_depth :: "swr_env \<Rightarrow> pipe_format \<Rightarrow> bool" where
  "util_format_has_depth env fmt = depth_channel (u_format_table env fmt)"

definition util_format_has_stencil :: "swr_env \<Rightarrow> pipe_format \<Rightarrow> bool" where
  "util_format_has_stencil env fmt = stencil_channel (u_format_table env fmt)"

text \<open>\<^verbatim>\<open>AlignedMalloc\<close>: asks the allocator and logs the call.\<close>

definition AlignedMalloc :: "heap \<Rightarrow> size_t \<Rightarrow> addr option \<times> heap" where
  "AlignedMalloc h sz =
     (let r = malloc_result h (length (allocations h)) sz
      in (r, h\<lparr>allocations := allocations h @ [(sz, r)]\<rparr>))"

section \<open>Format mapping\<close>

definition SWR_MAX_TEXTURE_SIZE :: size_t where
  "SWR_MAX_TEXTURE_SIZE = 4 * 1024 * 1024 * 1024"

text \<open>The table \<^verbatim>\<open>mesa2swr\<close> of \<^verbatim>\<open>mesa_to_swr_format\<close>, in source order.\<close>

definition mesa2swr :: "(pipe_format \<times> SWR_FORMAT) list" where
  "mesa2swr = [
    (PIPE_FORMAT ''Z16_UNORM'', SWR ''R16_UNORM''),
    (PIPE_FORMAT ''Z32_FLOAT'', SWR ''R32_FLOAT''),
    (PIPE_FORMAT ''Z24_UNORM_S8_UINT'', SWR ''R24_UNORM_X8_TYPELESS''),
    (PIPE_FORMAT ''Z24X8_UNORM'', SWR ''R24_UNORM_X8_TYPELESS''),
    (PIPE_FORMAT ''Z32_FLOAT_S8X24_UINT'', SWR ''R32_FLOAT_X8X24_TYPELESS''),
    (PIPE_FORMAT ''A8_UNORM'', SWR ''A8_UNORM''),
    (PIPE_FORMAT ''A16_UNORM'', SWR ''A16_UNORM''),
    (PIPE_FORMAT ''A16_FLOAT'', SWR ''A16_FLOAT''),
    (PIPE_FORMAT ''A32_FLOAT'', SWR ''A32_FLOAT''),
    (PIPE_FORMAT ''B5G6R5_UNORM'', SWR ''B5G6R5_UNORM''),
    (PIPE_FORMAT ''B5G6R5_SRGB'', SWR ''B5G6R5_UNORM_SRGB''),
    (PIPE_FORMAT ''B5G5R5A1_UNORM'', SWR ''B5G5R5A1_UNORM''),
    (PIPE_FORMAT ''B5G5R5X1_UNORM'', SWR ''B5G5R5X1_UNORM''),
    (PIPE_FORMAT ''B4G4R4A4_UNORM'', SWR ''B4G4R4A4_UNORM''),
    (PIPE_FORMAT ''B8G8R8A8_UNORM'', SWR ''B8G8R8A8_UNORM''),
    (PIPE_FORMAT ''B8G8R8A8_SRGB'', SWR ''B8G8R8A8_UNORM_SRGB''),
    (PIPE_FORMAT ''B8G8R8X8_UNORM'', SWR ''B8G8R8X8_UNORM''),
    (PIPE_FORMAT ''B8G8R8X8_SRGB'', SWR ''B8G8R8X8_UNORM_SRGB''),
    (PIPE_FORMAT ''R10G10B10A2_UNORM'', SWR ''R10G10B10A2_UNORM''),
    (PIPE_FORMAT ''R10G10B10A2_SNORM'', SWR ''R10G10B10A2_SNORM''),
    (PIPE_FORMAT ''R10G10B10A2_USCALED'', SWR ''R10G10B10A2_USCALED''),
    (PIPE_FORMAT ''R10G10B10A2_SSCALED'', SWR ''R10G10B10A2_SSCALED''),
    (PIPE_FORMAT ''R10G10B10A2_UINT'', SWR ''R10G10B10A2_UINT''),
    (PIPE_FORMAT ''R10G10B10X2_USCALED'', SWR ''R10G10B10X2_USCALED''),
    (PIPE_FORMAT ''B10G10R10A2_UNORM'', SWR ''B10G10R10A2_UNORM''),
    (PIPE_FORMAT ''B10G10R10A2_SNORM'', SWR ''B10G10R10A2_SNORM''),
    (PIPE_FORMAT ''B10G10R10A2_USCALED'', SWR ''B10G10R10A2_USCALED''),
    (PIPE_FORMAT ''B10G10R10A2_SSCALED'', SWR ''B10G10R10A2_SSCALED''),
    (PIPE_FORMAT ''B10G10R10A2_UINT'', SWR ''B10G10R10A2_UINT''),
    (PIPE_FORMAT ''B10G10R10X2_UNORM'', SWR ''B10G10R10X2_UNORM''),
    (PIPE_FORMAT ''R11G11B10_FLOAT'', SWR ''R11G11B10_FLOAT''),
    (PIPE_FORMAT ''R32_FLOAT'', SWR ''R32_FLOAT''),
    (PIPE_FORMAT ''R32G32_FLOAT'', SWR ''R32G32_FLOAT''),
    (PIPE_FORMAT ''R32G32B32_FLOAT'', SWR ''R32G32B32_FLOAT''),
    (PIPE_FORMAT ''R32G32B32A32_FLOAT'', SWR ''R32G32B32A32_FLOAT''),
    (PIPE_FORMAT ''R32G32B32X32_FLOAT'', SWR ''R32G32B32X32_FLOAT''),
    (PIPE_FORMAT ''R32_USCALED'', SWR ''R32_USCALED''),
    (PIPE_FORMAT ''R32G32_USCALED'', SWR ''R32G32_USCALED''),
    (PIPE_FORMAT ''R32G32B32_USCALED'', SWR ''R32G32B32_USCALED''),
    (PIPE_FORMAT ''R32G32B32A32_USCALED'', SWR ''R32G32B32A32_USCALED''),
    (PIPE_FORMAT ''R32_SSCALED'', SWR ''R32_SSCALED''),
    (PIPE_FORMAT ''R32G32_SSCALED'', SWR ''R32G32_SSCALED''),
    (PIPE_FORMAT ''R32G32B32_SSCALED'', SWR ''R32G32B32_SSCALED''),
    (PIPE_FORMAT ''R32G32B32A32_SSCALED'', SWR ''R32G32B32A32_SSCALED''),
    (PIPE_FORMAT ''R32_UINT'', SWR ''R32_UINT''),
    (PIPE_FORMAT ''R32G32_UINT'', SWR ''R32G32_UINT''),
    (PIPE_FORMAT ''R32G32B32_UINT'', SWR ''R32G32B32_UINT''),
    (PIPE_FORMAT ''R32G32B32A32_UINT'', SWR ''R32G32B32A32_UINT''),
    (PIPE_FORMAT ''R32_SINT'', SWR ''R32_SINT''),
    (PIPE_FORMAT ''R32G32_SINT'', SWR ''R32G32_SINT''),
    (PIPE_FORMAT ''R32G32B32_SINT'', SWR ''R32G32B32_SINT''),
    (PIPE_FORMAT ''R32G32B32A32_SINT'', SWR ''R32G32B32A32_SINT''),
    (PIPE_FORMAT ''R16_UNORM'', SWR ''R16_UNORM''),
    (PIPE_FORMAT ''R16G16_UNORM'', SWR ''R16G16_UNORM''),
    (PIPE_FORMAT ''R16G16B16_UNORM'', SWR ''R16G16B16_UNORM''),
    (PIPE_FORMAT ''R16G16B16A16_UNORM'', SWR ''R16G16B16A16_UNORM''),
    (PIPE_FORMAT ''R16G16B16X16_UNORM'', SWR ''R16G16B16X16_UNORM''),
    (PIPE_FORMAT ''R16_USCALED'', SWR ''R16_USCALED''),
    (PIPE_FORMAT ''R16G16_USCALED'', SWR ''R16G16_USCALED''),
    (PIPE_FORMAT ''R16G16B16_USCALED'', SWR ''R16G16B16_USCALED''),
    (PIPE_FORMAT ''R16G16B16A16_USCALED'', SWR ''R16G16B16A16_USCALED''),
    (PIPE_FORMAT ''R16_SNORM'', SWR ''R16_SNORM''),
    (PIPE_FORMAT ''R16G16_SNORM'', SWR ''R16G16_SNORM''),
    (PIPE_FORMAT ''R16G16B16_SNORM'', SWR ''R16G16B16_SNORM''),
    (PIPE_FORMAT ''R16G16B16A16_SNORM'', SWR ''R16G16B16A16_SNORM''),
    (PIPE_FORMAT ''R16_SSCALED'', SWR ''R16_SSCALED''),
    (PIPE_FORMAT ''R16G16_SSCALED'', SWR ''R16G16_SSCALED''),
    (PIPE_FORMAT ''R16G16B16_SSCALED'', SWR ''R16G16B16_SSCALED''),
    (PIPE_FORMAT ''R16G16B16A16_SSCALED'', SWR ''R16G16B16A16_SSCALED''),
    (PIPE_FORMAT ''R16_UINT'', SWR ''R16_UINT''),
    (PIPE_FORMAT ''R16G16_UINT'', SWR ''R16G16_UINT''),
    (PIPE_FORMAT ''R16G16B16_UINT'', SWR ''R16G16B16_UINT''),
    (PIPE_FORMAT ''R16G16B16A16_UINT'', SWR ''R16G16B16A16_UINT''),
    (PIPE_FORMAT ''R16_SINT'', SWR ''R16_SINT''),
    (PIPE_FORMAT ''R16G16_SINT'', SWR ''R16G16_SINT''),
    (PIPE_FORMAT ''R16G16B16_SINT'', SWR ''R16G16B16_SINT''),
    (PIPE_FORMAT ''R16G16B16A16_SINT'', SWR ''R16G16B16A16_SINT''),
    (PIPE_FORMAT ''R16_FLOAT'', SWR ''R16_FLOAT''),
    (PIPE_FORMAT ''R16G16_FLOAT'', SWR ''R16G16_FLOAT''),
    (PIPE_FORMAT ''R16G16B16_FLOAT'', SWR ''R16G16B16_FLOAT''),
    (PIPE_FORMAT ''R16G16B16A16_FLOAT'', SWR ''R16G16B16A16_FLOAT''),
    (PIPE_FORMAT ''R16G16B16X16_FLOAT'', SWR ''R16G16B16X16_FLOAT''),
    (PIPE_FORMAT ''R8_UNORM'', SWR ''R8_UNORM''),
    (PIPE_FORMAT ''R8G8_UNORM'', SWR ''R8G8_UNORM''),
    (PIPE_FORMAT ''R8G8B8_UNORM'', SWR ''R8G8B8_UNORM''),
    (PIPE_FORMAT ''R8G8B8_SRGB'', SWR ''R8G8B8_UNORM_SRGB''),
    (PIPE_FORMAT ''R8G8B8A8_UNORM'', SWR ''R8G8B8A8_UNORM''),
    (PIPE_FORMAT ''R8G8B8A8_SRGB'', SWR ''R8G8B8A8_UNORM_SRGB''),
    (PIPE_FORMAT ''R8G8B8X8_UNORM'', SWR ''R8G8B8X8_UNORM''),
    (PIPE_FORMAT ''R8G8B8X8_SRGB'', SWR ''R8G8B8X8_UNORM_SRGB''),
    (PIPE_FORMAT ''R8_USCALED'', SWR ''R8_USCALED''),
    (PIPE_FORMAT ''R8G8_USCALED'', SWR ''R8G8_USCALED''),
    (PIPE_FORMAT ''R8G8B8_USCALED'', SWR ''R8G8B8_USCALED''),
    (PIPE_FORMAT ''R8G8B8A8_USCALED'', SWR ''R8G8B8A8_USCALED''),
    (PIPE_FORMAT ''R8_SNORM'', SWR ''R8_SNORM''),
    (PIPE_FORMAT ''R8G8_SNORM'', SWR ''R8G8_SNORM''),
    (PIPE_FORMAT ''R8G8B8_SNORM'', SWR ''R8G8B8_SNORM''),
    (PIPE_FORMAT ''R8G8B8A8_SNORM'', SWR ''R8G8B8A8_SNORM''),
    (PIPE_FORMAT ''R8_SSCALED'', SWR ''R8_SSCALED''),
    (PIPE_FORMAT ''R8G8_SSCALED'', SWR ''R8G8_SSCALED''),
    (PIPE_FORMAT ''R8G8B8_SSCALED'', SWR ''R8G8B8_SSCALED''),
    (PIPE_FORMAT ''R8G8B8A8_SSCALED'', SWR ''R8G8B8A8_SSCALED''),
    (PIPE_FORMAT ''R8_UINT'', SWR ''R8_UINT''),
    (PIPE_FORMAT ''R8G8_UINT'', SWR ''R8G8_UINT''),
    (PIPE_FORMAT ''R8G8B8_UINT'', SWR ''R8G8B8_UINT''),
    (PIPE_FORMAT ''R8G8B8A8_UINT'', SWR ''R8G8B8A8_UINT''),
    (PIPE_FORMAT ''R8_SINT'', SWR ''R8_SINT''),
    (PIPE_FORMAT ''R8G8_SINT'', SWR ''R8G8_SINT''),
    (PIPE_FORMAT ''R8G8B8_SINT'', SWR ''R8G8B8_SINT''),
    (PIPE_FORMAT ''R8G8B8A8_SINT'', SWR ''R8G8B8A8_SINT'')]"

definition mesa_to_swr_format :: "pipe_format \<Rightarrow> SWR_FORMAT" where
  "mesa_to_swr_format fmt =
     (case map_of mesa2swr fmt of None \<Rightarrow> SWR_FORMAT_NONE | Some f \<Rightarrow> f)"

section \<open>The layout computation\<close>

text \<open>
  The two accumulating loops of \<^verbatim>\<open>swr_texture_layout\<close>
  (\<^verbatim>\<open>width += align(u_minify(pt->width0, level), halign)\<close> from level 1 for
  1D targets, \<^verbatim>\<open>level2 += align(u_minify(pt->height0, level), valign)\<close> from
  level 2 otherwise) share one shape: the level counter runs up to
  \<^verbatim>\<open>last_level\<close> and the running total grows by the aligned, minified extent.
\<close>

function levels_loop :: "u32 \<Rightarrow> u32 \<Rightarrow> nat \<Rightarrow> nat \<Rightarrow> u32 \<Rightarrow> u32" where
  "levels_loop extent0 al lastl level acc =
     (if level \<le> lastl
      then levels_loop extent0 al lastl (Suc level) (acc + align (u_minify extent0 level) al)
      else acc)"
  by pat_completeness auto
termination
  by (relation "measure (\<lambda>(e, a, lastl, level, acc). Suc lastl - level)") auto

declare levels_loop.simps [simp del]

text \<open>
  The format the layout is computed for: a stencil-only format is laid out
  as \<^verbatim>\<open>PIPE_FORMAT_R8_UINT\<close>.
\<close>

definition layout_fmt :: "swr_env \<Rightarrow> pipe_resource \<Rightarrow> pipe_format" where
  "layout_fmt env pt =
     (if util_format_has_stencil env (format pt) \<and> \<not> util_format_has_depth env (format pt)
      then PIPE_FORMAT ''R8_UINT'' else format pt)"

text \<open>The alignment chosen from the bind flags, in pixels of the surface state.\<close>

definition surface_halign :: "swr_env \<Rightarrow> pipe_resource \<Rightarrow> u32" where
  "surface_halign env pt =
     (if bind pt \<inter> {PIPE_BIND_RENDER_TARGET, PIPE_BIND_DEPTH_STENCIL} \<noteq> {}
      then KNOB_MACROTILE_X_DIM env else 1)"

definition surface_valign :: "swr_env \<Rightarrow> pipe_resource \<Rightarrow> u32" where
  "surface_valign env pt =
     (if bind pt \<inter> {PIPE_BIND_RENDER_TARGET, PIPE_BIND_DEPTH_STENCIL} \<noteq> {}
      then KNOB_MACROTILE_Y_DIM env else 1)"

text \<open>
  The local \<^verbatim>\<open>width\<close> of the 1D branch after its loop, and of the other
  branch after the widening by levels 1 and 2.
\<close>

definition layout_width_1d :: "u32 \<Rightarrow> nat \<Rightarrow> u32 \<Rightarrow> u32" where
  "layout_width_1d w0 lastl al = levels_loop w0 al lastl 1 (align w0 al)"

definition layout_width_2d :: "u32 \<Rightarrow> nat \<Rightarrow> u32 \<Rightarrow> u32" where
  "layout_width_2d w0 lastl al =
     (let width = align w0 al
      in if lastl > 1
         then max width (align (u_minify w0 1) al + align (u_minify w0 2) al)
         else width)"

text \<open>The local \<^verbatim>\<open>height\<close> from which the qpitch is taken.\<close>

definition layout_height_2d :: "u32 \<Rightarrow> nat \<Rightarrow> u32 \<Rightarrow> u32" where
  "layout_height_2d h0 lastl al =
     (let height = align h0 al
      in if lastl = 1 then height + align (u_minify h0 1) al
         else if lastl > 1 then
           (let level1 = align (u_minify h0 1) al;
                level2 = levels_loop h0 al lastl 2 0
            in height + max level1 level2)
         else height)"

text \<open>
  The first part of \<^verbatim>\<open>swr_texture_layout\<close>, up to the choice of
  \<^verbatim>\<open>depth\<close>: it fills the surface state from the template.
\<close>

definition layout_surface_state :: "swr_env \<Rightarrow> swr_resource \<Rightarrow> swr_resource" where
  "layout_surface_state env res =
     (let pt = base res;
          fmt = layout_fmt env pt;
          ha = surface_halign env pt * util_format_get_blockwidth env fmt;
          va = surface_valign env pt * util_format_get_blockheight env fmt;
          one_d = (target pt = PIPE_TEXTURE_1D \<or> target pt = PIPE_TEXTURE_1D_ARRAY)
      in res\<lparr>
           has_depth := util_format_has_depth env (format pt),
           has_stencil := util_format_has_stencil env (format pt),
           swr := (swr res)\<lparr>
             width := width0 pt,
             height := height0 pt,
             surface_type := swr_convert_target_type env (target pt),
             tileMode := SWR_TILE_NONE,
             swr_format := mesa_to_swr_format fmt,
             numSamples := max 1 (nr_samples pt),
             halign := surface_halign env pt,
             valign := surface_valign env pt,
             pitch :=
               (if one_d then util_format_get_blocksize env fmt
                else util_format_get_stride env fmt
                       (layout_width_2d (width0 pt) (last_level pt) ha)),
             qpitch :=
               (if one_d
                then util_format_get_nblocksx env fmt
                       (layout_width_1d (width0 pt) (last_level pt) ha)
                else util_format_get_nblocksy env fmt
                       (layout_height_2d (height0 pt) (last_level pt) va)),
             depth := (if target pt = PIPE_TEXTURE_3D then depth0 pt else array_size pt)
           \<rparr>\<rparr>)"

text \<open>
  The format fix-up: a format the rasterizer does not know is replaced by a
  generic one of the same block size; any other block size is declared
  unreachable by the source.
\<close>

definition fixup_swr_format :: "swr_env \<Rightarrow> pipe_format \<Rightarrow> SWR_FORMAT \<Rightarrow> layout_error + SWR_FORMAT" where
  "fixup_swr_format env fmt f =
     (if f = SWR_FORMAT_NONE then
        (let bs = util_format_get_blocksize env fmt
         in if bs = 1 then Inr (SWR ''R8_UINT'')
            else if bs = 2 then Inr (SWR ''R16_UINT'')
            else if bs = 4 then Inr (SWR ''R32_UINT'')
            else if bs = 8 then
              (if util_format_is_compressed env fmt then Inr (SWR ''BC4_UNORM'')
               else Inr (SWR ''R32G32_UINT''))
            else if bs = 16 then
              (if util_format_is_compressed env fmt then Inr (SWR ''BC5_UNORM'')
               else Inr (SWR ''R32G32B32A32_UINT''))
            else Inl Unreachable_format_block_size)
      else Inr f)"

text \<open>
  The loop that stores \<^verbatim>\<open>ComputeSurfaceOffset<false>(0, 0, 0, 0, 0, level, &surface)\<close>
  for every level up to \<^verbatim>\<open>last_level\<close>.
\<close>

function mip_offsets_loop ::
  "swr_env \<Rightarrow> SWR_SURFACE_STATE \<Rightarrow> nat \<Rightarrow> nat \<Rightarrow> (nat \<Rightarrow> u32) \<Rightarrow> (nat \<Rightarrow> u32)" where
  "mip_offsets_loop env s lastl level offs =
     (if level \<le> lastl
      then mip_offsets_loop env s lastl (Suc level) (offs(level := ComputeSurfaceOffset env level s))
      else offs)"
  by pat_completeness auto
termination
  by (relation "measure (\<lambda>(env, s, lastl, level, offs). Suc lastl - level)") auto

declare mip_offsets_loop.simps [simp del]

text \<open>\<^verbatim>\<open>(size_t)res->swr.depth * res->swr.qpitch * res->swr.pitch\<close>.\<close>

definition total_size :: "SWR_SURFACE_STATE \<Rightarrow> size_t" where
  "total_size s = ucast (depth s) * ucast (qpitch s) * ucast (pitch s)"

text \<open>
  The stencil surface of a depth+stencil resource: a copy of the primary
  surface state with the format and the pitch replaced.  Its allocation size
  is a product of three 32-bit fields, converted afterwards.
\<close>

definition secondary_surface :: "swr_env \<Rightarrow> pipe_format \<Rightarrow> SWR_SURFACE_STATE \<Rightarrow> SWR_SURFACE_STATE" where
  "secondary_surface env fmt s =
     s\<lparr>swr_format := SWR ''R8_UINT'',
       pitch := pitch s div util_format_get_blocksize env fmt\<rparr>"

definition secondary_size :: "SWR_SURFACE_STATE \<Rightarrow> size_t" where
  "secondary_size s = ucast (depth s * qpitch s * pitch s)"

text \<open>The allocation step, taken when \<^verbatim>\<open>allocate\<close> is set.\<close>

definition layout_allocate :: "swr_env \<Rightarrow> heap \<Rightarrow> swr_resource \<Rightarrow> swr_resource \<times> heap" where
  "layout_allocate env h res =
     (let (p, h1) = AlignedMalloc h (total_size (swr res));
          res1 = res\<lparr>swr := (swr res)\<lparr>pBaseAddress := p\<rparr>\<rparr>
      in if has_depth res1 \<and> has_stencil res1 then
           (let sec = secondary_surface env (layout_fmt env (base res1)) (swr res1);
                offs = mip_offsets_loop env sec (last_level (base res1)) 0
                         (secondary_mip_offsets res1);
                (q, h2) = AlignedMalloc h1 (secondary_size sec)
            in (res1\<lparr>secondary := sec\<lparr>pBaseAddress := q\<rparr>,
                      secondary_mip_offsets := offs\<rparr>, h2))
         else (res1, h1))"

text \<open>
  The resource as it stands when the size check is made: the surface state is
  filled, the format is fixed up to \<open>f\<close>, and the level offsets are stored.
\<close>

definition layout_mip_offsets :: "swr_env \<Rightarrow> swr_resource \<Rightarrow> swr_resource" where
  "layout_mip_offsets env res =
     res\<lparr>mip_offsets :=
           mip_offsets_loop env (swr res) (last_level (base res)) 0 (mip_offsets res)\<rparr>"

definition layout_fixed_up :: "swr_env \<Rightarrow> swr_resource \<Rightarrow> SWR_FORMAT \<Rightarrow> swr_resource" where
  "layout_fixed_up env res f =
     (let res1 = layout_surface_state env res
      in layout_mip_offsets env (res1\<lparr>swr := (swr res1)\<lparr>swr_format := f\<rparr>\<rparr>))"

text \<open>
  \<^verbatim>\<open>swr_texture_layout\<close>.  The result is the returned boolean, the resource
  as the call leaves it, and the allocator.
\<close>

definition swr_texture_layout ::
  "swr_env \<Rightarrow> heap \<Rightarrow> swr_resource \<Rightarrow> bool \<Rightarrow> layout_error + (bool \<times> swr_resource \<times> heap)" where
  "swr_texture_layout env h res allocate =
     (let res1 = layout_surface_state env res;
          fmt = layout_fmt env (base res)
      in case fixup_swr_format env fmt (swr_format (swr res1)) of
           Inl e \<Rightarrow> Inl e
         | Inr f \<Rightarrow>
             (let res3 = layout_fixed_up env res f
              in if total_size (swr res3) > SWR_MAX_TEXTURE_SIZE then Inr (False, res3, h)
                 else if allocate then
                   (let (res4, h') = layout_allocate env h res3 in Inr (True, res4, h'))
                 else Inr (True, res3, h)))"

section \<open>Resource creation\<close>

text \<open>The zero-filled resource that \<^verbatim>\<open>CALLOC_STRUCT\<close> and \<^verbatim>\<open>memset\<close> yield.\<close>

definition zero_surface :: "swr_env \<Rightarrow> SWR_SURFACE_STATE" where
  "zero_surface env =
     \<lparr>pBaseAddress = None, surface_type = 0, swr_format = SWR_FORMAT_zero env, width = 0,
      height = 0, depth = 0, numSamples = 0, pitch = 0, qpitch = 0,
      tileMode = SWR_TILE_NONE, halign = 0, valign = 0\<rparr>"

definition new_resource :: "swr_env \<Rightarrow> pipe_resource \<Rightarrow> swr_resource" where
  "new_resource env templat =
     \<lparr>base = templat, has_depth = False, has_stencil = False, swr = zero_surface env,
      secondary = zero_surface env, display_target = None, mip_offsets = (\<lambda>_. 0),
      secondary_mip_offsets = (\<lambda>_. 0)\<rparr>"

text \<open>\<^verbatim>\<open>swr_displaytarget_layout\<close>: the window system allocates the surface.\<close>

definition swr_displaytarget_layout :: "swr_env \<Rightarrow> swr_resource \<Rightarrow> bool \<times> swr_resource" where
  "swr_displaytarget_layout env res =
     (let w = align (width (swr res)) (halign (swr res));
          h = align (height (swr res)) (valign (swr res))
      in case displaytarget_create env (bind (base res)) (format (base res)) w h 64 of
           None \<Rightarrow> (False, res)
         | Some (dt, stride) \<Rightarrow>
             (True, res\<lparr>display_target := Some dt,
                        swr := (swr res)\<lparr>pBaseAddress := displaytarget_map env dt\<rparr>\<rparr>))"

definition swr_can_create_resource :: "swr_env \<Rightarrow> heap \<Rightarrow> pipe_resource \<Rightarrow> layout_error + bool" where
  "swr_can_create_resource env h templat =
     (case swr_texture_layout env h (new_resource env templat) False of
        Inl e \<Rightarrow> Inl e
      | Inr (ok, _, _) \<Rightarrow> Inr ok)"

text \<open>
  \<^verbatim>\<open>swr_resource_create\<close>: \<open>None\<close> is the null result.  On the displayable
  path the outcome of \<^verbatim>\<open>swr_texture_layout\<close> is dropped.
\<close>

definition swr_resource_create ::
  "swr_env \<Rightarrow> heap \<Rightarrow> pipe_resource \<Rightarrow> layout_error + (swr_resource option \<times> heap)" where
  "swr_resource_create env h templat =
     (if \<not> calloc_ok h then Inr (None, h)
      else
        (let res = new_resource env templat
         in if swr_resource_is_texture env (base res) then
              (if bind (base res) \<inter> {PIPE_BIND_DISPLAY_TARGET, PIPE_BIND_SCANOUT, PIPE_BIND_SHARED} \<noteq> {}
               then
                 (case swr_texture_layout env h res False of
                    Inl e \<Rightarrow> Inl e
                  | Inr (_, res1, h1) \<Rightarrow>
                      (case swr_displaytarget_layout env res1 of
                         (False, _) \<Rightarrow> Inr (None, h1)
                       | (True, res2) \<Rightarrow> Inr (Some res2, h1)))
               else
                 (case swr_texture_layout env h res True of
                    Inl e \<Rightarrow> Inl e
                  | Inr (False, _, h1) \<Rightarrow> Inr (None, h1)
                  | Inr (True, res1, h1) \<Rightarrow> Inr (Some res1, h1)))
            else if util_format_get_blocksize env (format templat) \<noteq> 1
                    \<or> height0 templat \<noteq> 1 \<or> depth0 templat \<noteq> 1 \<or> last_level templat \<noteq> 0
            then Inl Assertion_failed
            else
              (case swr_texture_layout env h res True of
                 Inl e \<Rightarrow> Inl e
               | Inr (False, _, h1) \<Rightarrow> Inr (None, h1)
               | Inr (True, res1, h1) \<Rightarrow> Inr (Some res1, h1))))"

section \<open>Preconditions and reference instances\<close>

text \<open>
  What the layout code expects of the format it computes with: block
  dimensions and block size of at least one (the format queries divide by
  them), and either a rasterizer format or one of the five block sizes the
  fix-up knows.  The source marks every other case as unreachable.
\<close>

definition layout_precondition :: "swr_env \<Rightarrow> pipe_resource \<Rightarrow> bool" where
  "layout_precondition env pt =
     (let fmt = layout_fmt env pt
      in 1 \<le> util_format_get_blockwidth env fmt
         \<and> 1 \<le> util_format_get_blockheight env fmt
         \<and> 1 \<le> util_format_get_blocksize env fmt
         \<and> (mesa_to_swr_format fmt \<noteq> SWR_FORMAT_NONE
            \<or> util_format_get_blocksize env fmt \<in> {1, 2, 4, 8, 16}))"

text \<open>
  An excerpt of the format description table, and an environment with
  32x32 macrotiles, in which the layout can be run on concrete descriptors.
  The offset routine of this environment places level \<open>l\<close> at row \<open>l\<close>
  of the surface; the display target allocator accepts every request; the
  enumerator 0 is taken to be \<^verbatim>\<open>R32G32B32A32_FLOAT\<close>.
\<close>

definition sample_format_table :: "pipe_format \<Rightarrow> util_format_description" where
  "sample_format_table fmt =
     (if fmt = PIPE_FORMAT ''Z24_UNORM_S8_UINT'' then
        \<lparr>block_width = 1, block_height = 1, block_size = 4, compressed = False,
         depth_channel = True, stencil_channel = True\<rparr>
      else if fmt = PIPE_FORMAT ''S8_UINT'' then
        \<lparr>block_width = 1, block_height = 1, block_size = 1, compressed = False,
         depth_channel = False, stencil_channel = True\<rparr>
      else if fmt = PIPE_FORMAT ''X24S8_UINT'' then
        \<lparr>block_width = 1, block_height = 1, block_size = 4, compressed = False,
         depth_channel = False, stencil_channel = True\<rparr>
      else if fmt = PIPE_FORMAT ''R8G8B8A8_UNORM'' then
        \<lparr>block_width = 1, block_height = 1, block_size = 4, compressed = False,
         depth_channel = False, stencil_channel = False\<rparr>
      else if fmt = PIPE_FORMAT ''DXT1_RGBA'' then
        \<lparr>block_width = 4, block_height = 4, block_size = 8, compressed = True,
         depth_channel = False, stencil_channel = False\<rparr>
      else
        \<lparr>block_width = 1, block_height = 1, block_size = 1, compressed = False,
         depth_channel = False, stencil_channel = False\<rparr>)"

definition sample_env :: swr_env where
  "sample_env =
     \<lparr>u_format_table = sample_format_table,
      KNOB_MACROTILE_X_DIM = 32,
      KNOB_MACROTILE_Y_DIM = 32,
      swr_convert_target_type = (\<lambda>t. if t = PIPE_BUFFER then 0 else 1),
      swr_resource_is_texture = (\<lambda>pt. target pt \<noteq> PIPE_BUFFER),
      ComputeSurfaceOffset = (\<lambda>level s. of_nat level * pitch s),
      displaytarget_create = (\<lambda>b f w h a. Some (7, w * 4)),
      displaytarget_map = (\<lambda>dt. Some 4096),
      SWR_FORMAT_zero = SWR ''R32G32B32A32_FLOAT''\<rparr>"

text \<open>
  Three allocators: one that serves every request, one that serves none, and
  one that serves the first request only.
\<close>

definition sample_heap :: heap where
  "sample_heap =
     \<lparr>malloc_result = (\<lambda>n sz. Some (64 * Suc n)), allocations = [], released = [],
      calloc_ok = True\<rparr>"

definition exhausted_heap :: heap where
  "exhausted_heap =
     \<lparr>malloc_result = (\<lambda>n sz. None), allocations = [], released = [], calloc_ok = True\<rparr>"

definition one_block_heap :: heap where
  "one_block_heap =
     \<lparr>malloc_result = (\<lambda>n sz. if n = 0 then Some 64 else None), allocations = [],
      released = [], calloc_ok = True\<rparr>"

definition sample_texture ::
  "pipe_format \<Rightarrow> pipe_texture_target \<Rightarrow> u32 \<Rightarrow> u32 \<Rightarrow> u32 \<Rightarrow> nat \<Rightarrow> pipe_bind set \<Rightarrow> pipe_resource" where
  "sample_texture fmt tgt w h d lastl b =
     \<lparr>format = fmt, width0 = w, height0 = h, depth0 = d, array_size = d, target = tgt,
      last_level = lastl, nr_samples = 0, bind = b\<rparr>"

text \<open>
  The synthetic descriptor of the stencil surface: the same texture with the
  single-channel format \<^verbatim>\<open>PIPE_FORMAT_R8_UINT\<close>.  Laying it out gives the
  pitch and qpitch against which those of the secondary surface are compared;
  the comparison is made when the depth+stencil format has the block
  footprint of the single-channel format, the latter has one byte per block,
  and the stencil pitch times the byte size of the depth+stencil format fits
  32 bits (the primary pitch has not wrapped around).
\<close>

definition stencil_descriptor :: "swr_resource \<Rightarrow> swr_resource" where
  "stencil_descriptor res = res\<lparr>base := (base res)\<lparr>format := PIPE_FORMAT ''R8_UINT''\<rparr>\<rparr>"

definition stencil_layout_comparable :: "swr_env \<Rightarrow> swr_resource \<Rightarrow> bool" where
  "stencil_layout_comparable env res =
     (util_format_get_blockwidth env (format (base res))
        = util_format_get_blockwidth env (PIPE_FORMAT ''R8_UINT'')
      \<and> util_format_get_blockheight env (format (base res))
        = util_format_get_blockheight env (PIPE_FORMAT ''R8_UINT'')
      \<and> util_format_get_blocksize env (PIPE_FORMAT ''R8_UINT'') = 1
      \<and> util_format_get_blocksize env (format (base res)) \<noteq> 0
      \<and> unat (pitch (swr (layout_surface_state env (stencil_descriptor res))))
          * unat (util_format_get_blocksize env (format (base res))) < 2 ^ 32)"

lemmas sample_defs =
  sample_env_def sample_heap_def exhausted_heap_def one_block_heap_def sample_texture_def
  sample_format_table_def new_resource_def zero_surface_def

lemmas format_query_defs =
  util_format_get_blockwidth_def util_format_get_blockheight_def util_format_get_blocksize_def
  util_format_get_nblocksx_def util_format_get_nblocksy_def util_format_get_stride_def
  util_format_is_compressed_def util_format_has_depth_def util_format_has_stencil_def

section \<open>The loops in closed form\<close>

lemma levels_loop_sum:
  "levels_loop e a lastl level acc =
     acc + sum_list (map (\<lambda>L. align (u_minify e L) a) [level..<Suc lastl])"
proof (induction e a lastl level acc rule: levels_loop.induct)
  case (1 e a lastl level acc)
  show ?case
  proof (cases "level \<le> lastl")
    case True
    then have "[level..<Suc lastl] = level # [Suc level..<Suc lastl]"
      by (simp add: upt_conv_Cons)
    with True 1 show ?thesis
      by (subst levels_loop.simps) (simp add: add.assoc)
  next
    case False
    then show ?thesis by (subst levels_loop.simps) simp
  qed
qed

lemma mip_offsets_loop_at:
  "mip_offsets_loop env s lastl level offs i =
     (if level \<le> i \<and> i \<le> lastl then ComputeSurfaceOffset env i s else offs i)"
proof (induction env s lastl level offs rule: mip_offsets_loop.induct)
  case (1 env s lastl level offs)
  show ?case
  proof (cases "level \<le> lastl")
    case True
    have "mip_offsets_loop env s lastl level offs i =
            mip_offsets_loop env s lastl (Suc level)
              (offs(level := ComputeSurfaceOffset env level s)) i"
      using True by (subst mip_offsets_loop.simps) simp
    also have "\<dots> = (if Suc level \<le> i \<and> i \<le> lastl then ComputeSurfaceOffset env i s
                      else (offs(level := ComputeSurfaceOffset env level s)) i)"
      by (rule 1 [OF True])
    also have "\<dots> = (if level \<le> i \<and> i \<le> lastl then ComputeSurfaceOffset env i s else offs i)"
      using True by auto
    finally show ?thesis .
  next
    case False
    then show ?thesis by (subst mip_offsets_loop.simps) auto
  qed
qed

section \<open>The shape of every run of the layout\<close>

lemma fixup_swr_format_Inr:
  assumes "layout_precondition env pt"
  shows "\<exists>f. fixup_swr_format env (layout_fmt env pt) (mesa_to_swr_format (layout_fmt env pt)) = Inr f \<and> f \<noteq> SWR_FORMAT_NONE"
  using assms by (auto simp: layout_precondition_def fixup_swr_format_def Let_def)

lemma layout_surface_state_format:
  "swr_format (swr (layout_surface_state env res)) = mesa_to_swr_format (layout_fmt env (base res))"
  by (simp add: layout_surface_state_def Let_def)

lemma layout_allocate_swr:
  "swr (fst (layout_allocate env h r)) = (swr r)\<lparr>pBaseAddress := fst (AlignedMalloc h (total_size (swr r)))\<rparr>"
  by (simp add: layout_allocate_def Let_def split: prod.splits)

lemma layout_allocate_base:
  "base (fst (layout_allocate env h r)) = base r"
  by (simp add: layout_allocate_def Let_def split: prod.splits)

lemma layout_allocate_heap:
  "\<exists>rest. allocations (snd (layout_allocate env h r)) =
            allocations h @ (total_size (swr r), pBaseAddress (swr (fst (layout_allocate env h r)))) # rest"
  by (simp add: layout_allocate_def AlignedMalloc_def Let_def split: prod.splits)

lemma layout_fixed_up_fields:
  "base (layout_fixed_up env res f) = base res"
  "swr (layout_fixed_up env res f) = (swr (layout_surface_state env res))\<lparr>swr_format := f\<rparr>"
  "secondary (layout_fixed_up env res f) = secondary res"
  "secondary_mip_offsets (layout_fixed_up env res f) = secondary_mip_offsets res"
  "has_depth (layout_fixed_up env res f) = util_format_has_depth env (format (base res))"
  "has_stencil (layout_fixed_up env res f) = util_format_has_stencil env (format (base res))"
  by (simp_all add: layout_fixed_up_def layout_mip_offsets_def layout_surface_state_def Let_def)

lemma layout_fixed_up_total:
  "total_size (swr (layout_fixed_up env res f)) = total_size (swr (layout_surface_state env res))"
  by (simp add: layout_fixed_up_fields total_size_def)

lemma swr_texture_layout_unfold:
  assumes "fixup_swr_format env (layout_fmt env (base res))
             (mesa_to_swr_format (layout_fmt env (base res))) = Inr f"
  shows "swr_texture_layout env h res allocate =
     (if total_size (swr (layout_fixed_up env res f)) > SWR_MAX_TEXTURE_SIZE
      then Inr (False, layout_fixed_up env res f, h)
      else if allocate
      then Inr (True, fst (layout_allocate env h (layout_fixed_up env res f)),
                snd (layout_allocate env h (layout_fixed_up env res f)))
      else Inr (True, layout_fixed_up env res f, h))"
  unfolding swr_texture_layout_def
  by (simp add: assms layout_surface_state_format Let_def split: prod.splits)

lemma swr_texture_layout_Inr_fixup:
  assumes "fixup_swr_format env (layout_fmt env (base res))
             (mesa_to_swr_format (layout_fmt env (base res))) = Inr f"
  shows "\<exists>res' h'. swr_texture_layout env h res allocate =
            Inr (total_size (swr (layout_surface_state env res)) \<le> SWR_MAX_TEXTURE_SIZE, res', h')
          \<and> base res' = base res
          \<and> swr_format (swr res') = f
          \<and> pitch (swr res') = pitch (swr (layout_surface_state env res))
          \<and> qpitch (swr res') = qpitch (swr (layout_surface_state env res))
          \<and> depth (swr res') = depth (swr (layout_surface_state env res))
          \<and> (SWR_MAX_TEXTURE_SIZE < total_size (swr (layout_surface_state env res)) \<longrightarrow> h' = h)"
proof -
  let ?res3 = "layout_fixed_up env res f"
  note eq = swr_texture_layout_unfold [OF assms, of h allocate]
  note t = layout_fixed_up_total [of env res f]
  show ?thesis
  proof (cases "total_size (swr ?res3) > SWR_MAX_TEXTURE_SIZE")
    case True
    then have "swr_texture_layout env h res allocate = Inr (False, ?res3, h)"
      using eq by simp
    then show ?thesis using True t
      by (simp add: not_le layout_fixed_up_fields)
  next
    case False
    show ?thesis
    proof (cases allocate)
      case True
      obtain res4 h4 where la: "layout_allocate env h ?res3 = (res4, h4)"
        by (cases "layout_allocate env h ?res3")
      have s4: "swr res4 = (swr ?res3)\<lparr>pBaseAddress := fst (AlignedMalloc h (total_size (swr ?res3)))\<rparr>"
        using layout_allocate_swr [of env h ?res3] by (simp add: la)
      have b4: "base res4 = base ?res3"
        using layout_allocate_base [of env h ?res3] by (simp add: la)
      have "swr_texture_layout env h res allocate = Inr (True, res4, h4)"
        using eq False True la by simp
      then show ?thesis using False t s4 b4
        by (simp add: not_less layout_fixed_up_fields)
    next
      case nalloc: False
      have "swr_texture_layout env h res allocate = Inr (True, ?res3, h)"
        using eq False nalloc by simp
      then show ?thesis using False t
        by (simp add: not_less layout_fixed_up_fields)
    qed
  qed
qed

lemma swr_texture_layout_Inr:
  assumes "layout_precondition env (base res)"
  shows "\<exists>res' h'. swr_texture_layout env h res allocate =
            Inr (total_size (swr (layout_surface_state env res)) \<le> SWR_MAX_TEXTURE_SIZE, res', h')
          \<and> base res' = base res
          \<and> pitch (swr res') = pitch (swr (layout_surface_state env res))
          \<and> qpitch (swr res') = qpitch (swr (layout_surface_state env res))
          \<and> depth (swr res') = depth (swr (layout_surface_state env res))
          \<and> (SWR_MAX_TEXTURE_SIZE < total_size (swr (layout_surface_state env res)) \<longrightarrow> h' = h)"
proof -
  obtain f where "fixup_swr_format env (layout_fmt env (base res))
                    (mesa_to_swr_format (layout_fmt env (base res))) = Inr f"
    using fixup_swr_format_Inr [OF assms] by blast
  from swr_texture_layout_Inr_fixup [OF this, of h allocate] show ?thesis by blast
qed

lemma layout_surface_state_pitch_2d:
  assumes "target (base res) \<noteq> PIPE_TEXTURE_1D" "target (base res) \<noteq> PIPE_TEXTURE_1D_ARRAY"
  shows "pitch (swr (layout_surface_state env res)) =
           util_format_get_stride env (layout_fmt env (base res))
             (layout_width_2d (width0 (base res)) (last_level (base res))
                (surface_halign env (base res)
                   * util_format_get_blockwidth env (layout_fmt env (base res))))"
    and "qpitch (swr (layout_surface_state env res)) =
           util_format_get_nblocksy env (layout_fmt env (base res))
             (layout_height_2d (height0 (base res)) (last_level (base res))
                (surface_valign env (base res)
                   * util_format_get_blockheight env (layout_fmt env (base res))))"
  using assms by (simp_all add: layout_surface_state_def Let_def)

lemma layout_surface_state_pitch_1d:
  assumes "target (base res) = PIPE_TEXTURE_1D \<or> target (base res) = PIPE_TEXTURE_1D_ARRAY"
  shows "pitch (swr (layout_surface_state env res)) =
           util_format_get_blocksize env (layout_fmt env (base res))"
    and "qpitch (swr (layout_surface_state env res)) =
           util_format_get_nblocksx env (layout_fmt env (base res))
             (layout_width_1d (width0 (base res)) (last_level (base res))
                (surface_halign env (base res)
                   * util_format_get_blockwidth env (layout_fmt env (base res))))"
  using assms by (auto simp add: layout_surface_state_def Let_def)

lemma layout_surface_state_depth:
  "depth (swr (layout_surface_state env res)) =
     (if target (base res) = PIPE_TEXTURE_3D then depth0 (base res) else array_size (base res))"
  by (simp add: layout_surface_state_def Let_def)

lemma levels_sum_interval:
  "sum_list (map f [m..<Suc n]) = (\<Sum>L = m..n. f L)"
  by (simp only: interv_sum_list_conv_sum_set_nat set_upt atLeastLessThanSuc_atLeastAtMost)

lemma layout_height_2d_closed:
  "layout_height_2d h0 n a =
     (if n = 0 then align h0 a
      else if n = 1 then align h0 a + align (u_minify h0 1) a
      else align h0 a
           + max (align (u_minify h0 1) a) (\<Sum>L = 2..n. align (u_minify h0 L) a))"
  unfolding layout_height_2d_def Let_def levels_loop_sum levels_sum_interval by simp

lemma layout_width_1d_closed:
  "layout_width_1d w0 n a = align w0 a + (\<Sum>L = 1..n. align (u_minify w0 L) a)"
  by (simp only: layout_width_1d_def levels_loop_sum levels_sum_interval)

lemma total_size_unat:
  "unat (total_size s) = (unat (depth s) * unat (qpitch s) * unat (pitch s)) mod 2 ^ 64"
proof -
  have u: "unat (ucast (x :: u32) :: size_t) = unat x" for x
  proof -
    have "unat x < 2 ^ 32" using unsigned_less [of x] by simp
    also have "(2 :: nat) ^ 32 < 2 ^ 64" by simp
    finally show ?thesis by (simp add: unsigned_ucast_eq take_bit_nat_eq_self)
  qed
  show ?thesis
    by (simp add: total_size_def unat_word_ariths u mod_simps)
qed

lemma swr_texture_layout_accepted:
  assumes "swr_texture_layout env h res allocate = Inr (True, res', h')"
  shows "\<exists>f. total_size (swr (layout_fixed_up env res f)) \<le> SWR_MAX_TEXTURE_SIZE
           \<and> (if allocate
               then res' = fst (layout_allocate env h (layout_fixed_up env res f))
                    \<and> h' = snd (layout_allocate env h (layout_fixed_up env res f))
               else res' = layout_fixed_up env res f \<and> h' = h)"
proof -
  obtain f where f: "fixup_swr_format env (layout_fmt env (base res))
                       (mesa_to_swr_format (layout_fmt env (base res))) = Inr f"
    using assms unfolding swr_texture_layout_def
    by (auto simp: Let_def layout_surface_state_format split: sum.splits)
  note eq = swr_texture_layout_unfold [OF f, of h allocate]
  have le: "total_size (swr (layout_fixed_up env res f)) \<le> SWR_MAX_TEXTURE_SIZE"
    using assms eq by (auto split: if_splits simp: not_less)
  have "if allocate
        then res' = fst (layout_allocate env h (layout_fixed_up env res f))
             \<and> h' = snd (layout_allocate env h (layout_fixed_up env res f))
        else res' = layout_fixed_up env res f \<and> h' = h"
    using assms eq le by (auto split: if_splits)
  with le show ?thesis by blast
qed

lemma fixup_swr_format_none:
  assumes "util_format_get_blocksize env fmt \<in> {1, 2, 4, 8, 16}"
  shows "fixup_swr_format env fmt SWR_FORMAT_NONE =
     Inr (if util_format_get_blocksize env fmt = 1 then SWR ''R8_UINT''
          else if util_format_get_blocksize env fmt = 2 then SWR ''R16_UINT''
          else if util_format_get_blocksize env fmt = 4 then SWR ''R32_UINT''
          else if util_format_get_blocksize env fmt = 8 then
            (if util_format_is_compressed env fmt then SWR ''BC4_UNORM''
             else SWR ''R32G32_UINT'')
          else
            (if util_format_is_compressed env fmt then SWR ''BC5_UNORM''
             else SWR ''R32G32B32A32_UINT''))"
  using assms by (auto simp: fixup_swr_format_def Let_def)

lemma mesa_to_swr_format_R8_UINT:
  "mesa_to_swr_format (PIPE_FORMAT ''R8_UINT'') = SWR ''R8_UINT''"
  by (simp add: mesa_to_swr_format_def mesa2swr_def)

lemma mesa_to_swr_format_DXT1: "mesa_to_swr_format (PIPE_FORMAT ''DXT1_RGBA'') = SWR_FORMAT_NONE"
  by (simp add: mesa_to_swr_format_def mesa2swr_def)

lemma mesa_to_swr_format_Z24S8:
  "mesa_to_swr_format (PIPE_FORMAT ''Z24_UNORM_S8_UINT'') = SWR ''R24_UNORM_X8_TYPELESS''"
  by (simp add: mesa_to_swr_format_def mesa2swr_def)

lemma layout_allocate_depth_stencil:
  assumes "has_depth r" "has_stencil r"
  shows "secondary (fst (layout_allocate env h r)) =
           (secondary_surface env (layout_fmt env (base r)) (swr (fst (layout_allocate env h r))))
             \<lparr>pBaseAddress := pBaseAddress (secondary (fst (layout_allocate env h r)))\<rparr>"
    and "secondary_mip_offsets (fst (layout_allocate env h r)) =
           mip_offsets_loop env
             (secondary_surface env (layout_fmt env (base r)) (swr (fst (layout_allocate env h r))))
             (last_level (base r)) 0 (secondary_mip_offsets r)"
    and "allocations (snd (layout_allocate env h r)) =
           allocations h
             @ [(total_size (swr r), pBaseAddress (swr (fst (layout_allocate env h r)))),
                (secondary_size
                   (secondary_surface env (layout_fmt env (base r))
                      (swr (fst (layout_allocate env h r)))),
                 pBaseAddress (secondary (fst (layout_allocate env h r))))]"
    and "pBaseAddress (secondary (fst (layout_allocate env h r))) =
           malloc_result h (Suc (length (allocations h)))
             (secondary_size
                (secondary_surface env (layout_fmt env (base r))
                   (swr (fst (layout_allocate env h r)))))"
  using assms
  by (simp_all add: layout_allocate_def AlignedMalloc_def secondary_surface_def Let_def
        split: prod.splits)

lemma layout_allocate_other_fields:
  "mip_offsets (fst (layout_allocate env h r)) = mip_offsets r"
  "released (snd (layout_allocate env h r)) = released h"
  "malloc_result (snd (layout_allocate env h r)) = malloc_result h"
  "pBaseAddress (swr (fst (layout_allocate env h r))) =
     malloc_result h (length (allocations h)) (total_size (swr r))"
  by (simp_all add: layout_allocate_def AlignedMalloc_def Let_def split: prod.splits)

lemma layout_fixed_up_mip_offsets:
  "mip_offsets (layout_fixed_up env res f) level =
     (if level \<le> last_level (base res)
      then ComputeSurfaceOffset env level ((swr (layout_surface_state env res))\<lparr>swr_format := f\<rparr>)
      else mip_offsets res level)"
  by (simp add: layout_fixed_up_def layout_mip_offsets_def Let_def mip_offsets_loop_at)
     (simp add: layout_surface_state_def Let_def)

lemmas layout_eval_defs =
  layout_surface_state_def layout_fmt_def surface_halign_def surface_valign_def
  layout_width_2d_def layout_height_2d_def align_def u_minify_def

lemma zs_4x4_layout:
  "fixup_swr_format sample_env
     (layout_fmt sample_env (base (new_resource sample_env
        (sample_texture (PIPE_FORMAT ''Z24_UNORM_S8_UINT'') PIPE_TEXTURE_2D 4 4 1 0
           {PIPE_BIND_SAMPLER_VIEW}))))
     (mesa_to_swr_format (layout_fmt sample_env (base (new_resource sample_env
        (sample_texture (PIPE_FORMAT ''Z24_UNORM_S8_UINT'') PIPE_TEXTURE_2D 4 4 1 0
           {PIPE_BIND_SAMPLER_VIEW})))))
     = Inr (SWR ''R24_UNORM_X8_TYPELESS'')"
  "pitch (swr (layout_surface_state sample_env (new_resource sample_env
        (sample_texture (PIPE_FORMAT ''Z24_UNORM_S8_UINT'') PIPE_TEXTURE_2D 4 4 1 0
           {PIPE_BIND_SAMPLER_VIEW})))) = 16"
  "qpitch (swr (layout_surface_state sample_env (new_resource sample_env
        (sample_texture (PIPE_FORMAT ''Z24_UNORM_S8_UINT'') PIPE_TEXTURE_2D 4 4 1 0
           {PIPE_BIND_SAMPLER_VIEW})))) = 4"
  "depth (swr (layout_surface_state sample_env (new_resource sample_env
        (sample_texture (PIPE_FORMAT ''Z24_UNORM_S8_UINT'') PIPE_TEXTURE_2D 4 4 1 0
           {PIPE_BIND_SAMPLER_VIEW})))) = 1"
  "total_size (swr (layout_surface_state sample_env (new_resource sample_env
        (sample_texture (PIPE_FORMAT ''Z24_UNORM_S8_UINT'') PIPE_TEXTURE_2D 4 4 1 0
           {PIPE_BIND_SAMPLER_VIEW})))) = 64"
proof -
  let ?pt = "sample_texture (PIPE_FORMAT ''Z24_UNORM_S8_UINT'') PIPE_TEXTURE_2D 4 4 1 0
               {PIPE_BIND_SAMPLER_VIEW}"
  have lf: "layout_fmt sample_env (base (new_resource sample_env ?pt)) = PIPE_FORMAT ''Z24_UNORM_S8_UINT''"
    by (simp add: layout_fmt_def sample_defs format_query_defs)
  show "fixup_swr_format sample_env (layout_fmt sample_env (base (new_resource sample_env ?pt)))
          (mesa_to_swr_format (layout_fmt sample_env (base (new_resource sample_env ?pt))))
        = Inr (SWR ''R24_UNORM_X8_TYPELESS'')"
    by (simp add: lf mesa_to_swr_format_Z24S8 fixup_swr_format_def)
  show pqd: "pitch (swr (layout_surface_state sample_env (new_resource sample_env ?pt))) = 16"
    "qpitch (swr (layout_surface_state sample_env (new_resource sample_env ?pt))) = 4"
    "depth (swr (layout_surface_state sample_env (new_resource sample_env ?pt))) = 1"
    by (simp_all add: layout_eval_defs sample_defs format_query_defs Let_def)
  show "total_size (swr (layout_surface_state sample_env (new_resource sample_env ?pt))) = 64"
    unfolding total_size_def pqd by simp
qed

lemma layout_surface_state_dims:
  "width (swr (layout_surface_state env res)) = width0 (base res)"
  "height (swr (layout_surface_state env res)) = height0 (base res)"
  "halign (swr (layout_surface_state env res)) = surface_halign env (base res)"
  "valign (swr (layout_surface_state env res)) = surface_valign env (base res)"
  by (simp_all add: layout_surface_state_def Let_def)

lemma swr_texture_layout_dry_run:
  assumes "layout_precondition env (base res)"
  shows "\<exists>f. swr_texture_layout env h res False =
           Inr (total_size (swr (layout_surface_state env res)) \<le> SWR_MAX_TEXTURE_SIZE,
                layout_fixed_up env res f, h)"
proof -
  obtain f where f: "fixup_swr_format env (layout_fmt env (base res))
                    (mesa_to_swr_format (layout_fmt env (base res))) = Inr f"
    using fixup_swr_format_Inr [OF assms] by blast
  have "swr_texture_layout env h res False =
           Inr (total_size (swr (layout_surface_state env res)) \<le> SWR_MAX_TEXTURE_SIZE,
                layout_fixed_up env res f, h)"
    using swr_texture_layout_unfold [OF f, of h False]
    by (auto simp add: layout_fixed_up_total)
  then show ?thesis by blast
qed

lemma swr_displaytarget_layout_fixed_up:
  "fst (swr_displaytarget_layout env (layout_fixed_up env res f)) =
     (displaytarget_create env (bind (base res)) (format (base res))
        (align (width0 (base res)) (surface_halign env (base res)))
        (align (height0 (base res)) (surface_valign env (base res))) 64 \<noteq> None)"
  by (simp add: swr_displaytarget_layout_def layout_fixed_up_fields layout_surface_state_dims
        Let_def split: option.splits prod.splits)

lemma word_mult_div_cancel:
  fixes a b :: u32
  assumes "b \<noteq> 0" and "unat a * unat b < 2 ^ 32"
  shows "(a * b) div b = a"
proof -
  have m: "unat (a * b) = unat a * unat b"
    using assms(2) by (simp add: unat_mult_lem [symmetric])
  have nz: "unat b \<noteq> 0" using assms(1) by (simp add: unat_eq_0)
  have "unat ((a * b) div b) = unat a"
    by (simp add: unat_div m nz)
  then show ?thesis by (simp add: word_unat_eq_iff)
qed

lemma swr_texture_layout_result:
  assumes "fixup_swr_format env (layout_fmt env (base res))
             (mesa_to_swr_format (layout_fmt env (base res))) = Inr f"
  shows "\<exists>ok res' h'. swr_texture_layout env h res allocate = Inr (ok, res', h')
           \<and> swr res' = (swr (layout_fixed_up env res f))\<lparr>pBaseAddress := pBaseAddress (swr res')\<rparr>
           \<and> mip_offsets res' = mip_offsets (layout_fixed_up env res f)
           \<and> base res' = base res"
proof -
  let ?R = "layout_fixed_up env res f"
  note eq = swr_texture_layout_unfold [OF assms, of h allocate]
  show ?thesis
  proof (cases "allocate \<and> \<not> total_size (swr ?R) > SWR_MAX_TEXTURE_SIZE")
    case True
    then have "swr_texture_layout env h res allocate =
                 Inr (True, fst (layout_allocate env h ?R), snd (layout_allocate env h ?R))"
      using eq by simp
    moreover have "swr (fst (layout_allocate env h ?R)) =
                     (swr ?R)\<lparr>pBaseAddress := pBaseAddress (swr (fst (layout_allocate env h ?R)))\<rparr>"
      by (simp add: layout_allocate_swr)
    moreover have "mip_offsets (fst (layout_allocate env h ?R)) = mip_offsets ?R"
      by (simp add: layout_allocate_other_fields)
    moreover have "base (fst (layout_allocate env h ?R)) = base res"
      by (simp add: layout_allocate_base layout_fixed_up_fields)
    ultimately show ?thesis by blast
  next
    case False
    then have "swr_texture_layout env h res allocate =
                 Inr (\<not> total_size (swr ?R) > SWR_MAX_TEXTURE_SIZE, ?R, h)"
      using eq by auto
    moreover have "swr ?R = (swr ?R)\<lparr>pBaseAddress := pBaseAddress (swr ?R)\<rparr>" by simp
    moreover have "base ?R = base res" by (simp add: layout_fixed_up_fields)
    ultimately show ?thesis by blast
  qed
qed

lemma swr_texture_layout_Inr_offsets:
  assumes "fixup_swr_format env (layout_fmt env (base res))
             (mesa_to_swr_format (layout_fmt env (base res))) = Inr f"
  shows "\<exists>ok res' h'. swr_texture_layout env h res allocate = Inr (ok, res', h')
           \<and> base res' = base res
           \<and> swr_format (swr res') = f
           \<and> pitch (swr res') = pitch (swr (layout_surface_state env res))
           \<and> qpitch (swr res') = qpitch (swr (layout_surface_state env res))
           \<and> (\<forall>level \<le> last_level (base res).
                 mip_offsets res' level =
                   ComputeSurfaceOffset env level
                     ((swr res')\<lparr>pBaseAddress := pBaseAddress (swr res)\<rparr>))"
proof -
  from swr_texture_layout_result [OF assms, of h allocate]
  obtain ok res' h' where l: "swr_texture_layout env h res allocate = Inr (ok, res', h')"
    and s: "swr res' = (swr (layout_fixed_up env res f))\<lparr>pBaseAddress := pBaseAddress (swr res')\<rparr>"
    and m: "mip_offsets res' = mip_offsets (layout_fixed_up env res f)"
    and b: "base res' = base res"
    by blast
  have p0: "pBaseAddress (swr (layout_surface_state env res)) = pBaseAddress (swr res)"
    by (simp add: layout_surface_state_def Let_def)
  have e: "(swr res')\<lparr>pBaseAddress := pBaseAddress (swr res)\<rparr> =
            (swr (layout_surface_state env res))\<lparr>swr_format := f\<rparr>"
    by (subst s) (simp add: layout_fixed_up_fields p0 [symmetric])
  have f: "swr_format (swr res') = f"
    "pitch (swr res') = pitch (swr (layout_surface_state env res))"
    "qpitch (swr res') = qpitch (swr (layout_surface_state env res))"
    by (subst s, simp add: layout_fixed_up_fields)+
  have o: "\<forall>level \<le> last_level (base res).
             mip_offsets res' level =
               ComputeSurfaceOffset env level ((swr res')\<lparr>pBaseAddress := pBaseAddress (swr res)\<rparr>)"
    by (simp add: e m layout_fixed_up_mip_offsets)
  from l b f o show ?thesis by blast
qed

lemma swr_texture_layout_InrD:
  assumes "swr_texture_layout env h res allocate = Inr (ok, res', h')"
  shows "\<exists>f. ok = (total_size (swr (layout_fixed_up env res f)) \<le> SWR_MAX_TEXTURE_SIZE)
           \<and> (if ok \<and> allocate
               then res' = fst (layout_allocate env h (layout_fixed_up env res f))
                    \<and> h' = snd (layout_allocate env h (layout_fixed_up env res f))
               else res' = layout_fixed_up env res f \<and> h' = h)"
proof -
  obtain f where f: "fixup_swr_format env (layout_fmt env (base res))
                       (mesa_to_swr_format (layout_fmt env (base res))) = Inr f"
    using assms unfolding swr_texture_layout_def
    by (auto simp: Let_def layout_surface_state_format split: sum.splits)
  note eq = swr_texture_layout_unfold [OF f, of h allocate]
  have 1: "ok = (total_size (swr (layout_fixed_up env res f)) \<le> SWR_MAX_TEXTURE_SIZE)"
    using assms eq by (auto split: if_splits simp: not_less)
  have "if ok \<and> allocate
        then res' = fst (layout_allocate env h (layout_fixed_up env res f))
             \<and> h' = snd (layout_allocate env h (layout_fixed_up env res f))
        else res' = layout_fixed_up env res f \<and> h' = h"
    using assms eq 1 by (auto split: if_splits)
  with 1 show ?thesis by blast
qed

lemma stencil_descriptor_layout:
  assumes "util_format_has_depth env (format (base res))"
    and "stencil_layout_comparable env res"
  shows "qpitch (swr (layout_surface_state env (stencil_descriptor res))) =
           qpitch (swr (layout_surface_state env res))"
    and "pitch (swr (layout_surface_state env res)) =
           pitch (swr (layout_surface_state env (stencil_descriptor res)))
             * util_format_get_blocksize env (format (base res))"
proof -
  have lfR: "layout_fmt env (base res) = format (base res)"
    using assms(1) by (simp add: layout_fmt_def)
  have lfS: "layout_fmt env (base (stencil_descriptor res)) = PIPE_FORMAT ''R8_UINT''"
    by (simp add: layout_fmt_def stencil_descriptor_def)
  have c: "util_format_get_blockwidth env (format (base res))
             = util_format_get_blockwidth env (PIPE_FORMAT ''R8_UINT'')"
    "util_format_get_blockheight env (format (base res))
             = util_format_get_blockheight env (PIPE_FORMAT ''R8_UINT'')"
    "util_format_get_blocksize env (PIPE_FORMAT ''R8_UINT'') = 1"
    using assms(2) by (simp_all add: stencil_layout_comparable_def)
  have b: "width0 (base (stencil_descriptor res)) = width0 (base res)"
    "height0 (base (stencil_descriptor res)) = height0 (base res)"
    "last_level (base (stencil_descriptor res)) = last_level (base res)"
    "target (base (stencil_descriptor res)) = target (base res)"
    "surface_halign env (base (stencil_descriptor res)) = surface_halign env (base res)"
    "surface_valign env (base (stencil_descriptor res)) = surface_valign env (base res)"
    by (simp_all add: stencil_descriptor_def surface_halign_def surface_valign_def)
  show "qpitch (swr (layout_surface_state env (stencil_descriptor res))) =
           qpitch (swr (layout_surface_state env res))"
    by (simp add: layout_surface_state_def Let_def lfR lfS b c
          util_format_get_nblocksx_def util_format_get_nblocksy_def)
  show "pitch (swr (layout_surface_state env res)) =
           pitch (swr (layout_surface_state env (stencil_descriptor res)))
             * util_format_get_blocksize env (format (base res))"
    by (simp add: layout_surface_state_def Let_def lfR lfS b c
          util_format_get_nblocksx_def util_format_get_stride_def)
qed

lemma mesa_to_swr_format_X24S8:
  "mesa_to_swr_format (PIPE_FORMAT ''X24S8_UINT'') = SWR_FORMAT_NONE"
  by (simp add: mesa_to_swr_format_def mesa2swr_def)

lemma swr_texture_layout_dry_accept:
  assumes "fixup_swr_format env (layout_fmt env (base res))
             (mesa_to_swr_format (layout_fmt env (base res))) = Inr f"
    and "total_size (swr (layout_surface_state env res)) \<le> SWR_MAX_TEXTURE_SIZE"
  shows "swr_texture_layout env h res False = Inr (True, layout_fixed_up env res f, h)"
  using swr_texture_layout_unfold [OF assms(1), of h False] assms(2)
  by (simp add: layout_fixed_up_total not_less)

lemma x24s8_sample_fixup:
  "fixup_swr_format sample_env
     (layout_fmt sample_env (base (new_resource sample_env
        (sample_texture (PIPE_FORMAT ''X24S8_UINT'') tgt w h d l b))))
     (mesa_to_swr_format (layout_fmt sample_env (base (new_resource sample_env
        (sample_texture (PIPE_FORMAT ''X24S8_UINT'') tgt w h d l b)))))
     = Inr (SWR ''R8_UINT'')"
proof -
  have lf: "layout_fmt sample_env (base (new_resource sample_env
              (sample_texture (PIPE_FORMAT ''X24S8_UINT'') tgt w h d l b)))
            = PIPE_FORMAT ''R8_UINT''"
    by (simp add: layout_fmt_def sample_defs format_query_defs)
  show ?thesis
    by (simp add: lf mesa_to_swr_format_R8_UINT fixup_swr_format_def)
qed

section \<open>Pitch and qpitch\<close>

text \<open>
  A stencil-only format is laid out as \<^verbatim>\<open>PIPE_FORMAT_R8_UINT\<close>.  For a
  single-level 10 by 10 texture of format \<^verbatim>\<open>PIPE_FORMAT_X24S8_UINT\<close>, whose
  blocks are four bytes, the pitch is 10, where the aligned width converted
  to bytes of the descriptor's own format is 40.
\<close>

theorem single_level_pitch_stencil_only:
  "swr_texture_layout sample_env sample_heap
     (new_resource sample_env
      (sample_texture (PIPE_FORMAT ''X24S8_UINT'') PIPE_TEXTURE_2D 10 10 1 0
        {PIPE_BIND_SAMPLER_VIEW})) False
     = Inr (True,
            (layout_fixed_up sample_env (new_resource sample_env
      (sample_texture (PIPE_FORMAT ''X24S8_UINT'') PIPE_TEXTURE_2D 10 10 1 0
        {PIPE_BIND_SAMPLER_VIEW})) (SWR ''R8_UINT'')),
            sample_heap)
   \<and> pitch (swr (layout_fixed_up sample_env (new_resource sample_env
      (sample_texture (PIPE_FORMAT ''X24S8_UINT'') PIPE_TEXTURE_2D 10 10 1 0
        {PIPE_BIND_SAMPLER_VIEW})) (SWR ''R8_UINT''))) = 10
   \<and> util_format_get_stride sample_env (PIPE_FORMAT ''X24S8_UINT'')
         (align 10 (surface_halign sample_env
      (sample_texture (PIPE_FORMAT ''X24S8_UINT'') PIPE_TEXTURE_2D 10 10 1 0
        {PIPE_BIND_SAMPLER_VIEW})
            * util_format_get_blockwidth sample_env (PIPE_FORMAT ''X24S8_UINT''))) = 40"
proof -
  let ?pt = "sample_texture (PIPE_FORMAT ''X24S8_UINT'') PIPE_TEXTURE_2D 10 10 1 0
        {PIPE_BIND_SAMPLER_VIEW}"
  let ?R = "layout_fixed_up sample_env (new_resource sample_env ?pt) (SWR ''R8_UINT'')"
  have t: "total_size (swr (layout_surface_state sample_env (new_resource sample_env ?pt)))
             \<le> SWR_MAX_TEXTURE_SIZE"
    by (simp add: total_size_def layout_eval_defs layout_width_1d_def levels_loop.simps
          sample_defs format_query_defs Let_def SWR_MAX_TEXTURE_SIZE_def)
  note 1 = swr_texture_layout_dry_accept [OF x24s8_sample_fixup t, of sample_heap]
  have 2: "pitch (swr ?R) = 10"
    by (simp add: layout_fixed_up_fields)
       (simp add: layout_eval_defs sample_defs format_query_defs Let_def)
  have 3: "util_format_get_stride sample_env (PIPE_FORMAT ''X24S8_UINT'')
             (align 10 (surface_halign sample_env ?pt
                * util_format_get_blockwidth sample_env (PIPE_FORMAT ''X24S8_UINT''))) = 40"
    by (simp add: surface_halign_def align_def sample_defs format_query_defs)
  from 1 2 3 show ?thesis by blast
qed

text \<open>
  C9 (as amended).  A two- or three-dimensional style descriptor (any
  target other than the two 1D ones) with a single mip level: the pitch is
  the stride of the level-0 width aligned to the horizontal alignment times
  the block width, and the qpitch is the block count of the level-0 height
  aligned to the vertical alignment times the block height, all taken for
  the layout format, which is \<^verbatim>\<open>PIPE_FORMAT_R8_UINT\<close> when the format of
  the descriptor has stencil and no depth and the format of the descriptor
  otherwise.  In the scenario of the specification, 257 by 130 pixels
  under 32-pixel alignments give a pitch width of 288 (times the four bytes
  of a block) and a qpitch of 160.
\<close>

theorem single_level_pitch_qpitch:
  assumes "layout_precondition env (base res)"
    and "target (base res) \<noteq> PIPE_TEXTURE_1D" "target (base res) \<noteq> PIPE_TEXTURE_1D_ARRAY"
    and "last_level (base res) = 0"
  shows "\<exists>ok res' h' fmt. swr_texture_layout env h res allocate = Inr (ok, res', h')
           \<and> fmt = (if util_format_has_stencil env (format (base res))
                       \<and> \<not> util_format_has_depth env (format (base res))
                    then PIPE_FORMAT ''R8_UINT'' else format (base res))
           \<and> pitch (swr res') =
               util_format_get_stride env fmt
                 (align (width0 (base res))
                    (surface_halign env (base res)
                       * util_format_get_blockwidth env fmt))
           \<and> qpitch (swr res') =
               util_format_get_nblocksy env fmt
                 (align (height0 (base res))
                    (surface_valign env (base res)
                       * util_format_get_blockheight env fmt))"
proof -
  from swr_texture_layout_Inr [OF assms(1), of h allocate]
  obtain res' h' where r:
    "swr_texture_layout env h res allocate =
       Inr (total_size (swr (layout_surface_state env res)) \<le> SWR_MAX_TEXTURE_SIZE, res', h')"
    "pitch (swr res') = pitch (swr (layout_surface_state env res))"
    "qpitch (swr res') = qpitch (swr (layout_surface_state env res))"
    by blast
  have w: "layout_width_2d (width0 (base res)) 0 a = align (width0 (base res)) a" for a
    by (simp add: layout_width_2d_def Let_def)
  have hh: "layout_height_2d (height0 (base res)) 0 a = align (height0 (base res)) a" for a
    by (simp add: layout_height_2d_def Let_def)
  have "\<exists>ok res' h'. swr_texture_layout env h res allocate = Inr (ok, res', h')
           \<and> pitch (swr res') =
               util_format_get_stride env (layout_fmt env (base res))
                 (align (width0 (base res))
                    (surface_halign env (base res)
                       * util_format_get_blockwidth env (layout_fmt env (base res))))
           \<and> qpitch (swr res') =
               util_format_get_nblocksy env (layout_fmt env (base res))
                 (align (height0 (base res))
                    (surface_valign env (base res)
                       * util_format_get_blockheight env (layout_fmt env (base res))))"
    using r layout_surface_state_pitch_2d [OF assms(2,3), of env] assms(4)
    by (simp add: w hh)
  then show ?thesis unfolding layout_fmt_def by simp
qed

theorem single_level_pitch_qpitch_witness:
  "layout_precondition sample_env
     (sample_texture (PIPE_FORMAT ''R8G8B8A8_UNORM'') PIPE_TEXTURE_2D 257 130 1 0
        {PIPE_BIND_RENDER_TARGET})
   \<and> (\<exists>ok res' h'.
         swr_texture_layout sample_env sample_heap
           (new_resource sample_env (sample_texture (PIPE_FORMAT ''R8G8B8A8_UNORM'') PIPE_TEXTURE_2D
              257 130 1 0 {PIPE_BIND_RENDER_TARGET})) True = Inr (ok, res', h')
         \<and> pitch (swr res') = 288 * 4 \<and> qpitch (swr res') = 160)"
proof -
  let ?pt = "sample_texture (PIPE_FORMAT ''R8G8B8A8_UNORM'') PIPE_TEXTURE_2D 257 130 1 0
               {PIPE_BIND_RENDER_TARGET}"
  have pre: "layout_precondition sample_env ?pt"
    by (simp add: layout_precondition_def layout_fmt_def sample_defs format_query_defs
        mesa_to_swr_format_def mesa2swr_def)
  have b: "base (new_resource sample_env ?pt) = ?pt" by (simp add: new_resource_def)
  have "\<exists>ok res' h'.
         swr_texture_layout sample_env sample_heap (new_resource sample_env ?pt) True = Inr (ok, res', h')
         \<and> pitch (swr res') = 288 * 4 \<and> qpitch (swr res') = 160"
    using single_level_pitch_qpitch [of sample_env "new_resource sample_env ?pt" sample_heap True] pre
    by (simp add: b)
       (simp add: layout_fmt_def sample_defs format_query_defs surface_halign_def
          surface_valign_def align_def)
  with pre show ?thesis by blast
qed

text \<open>
  C2.  For every target other than the two 1D ones, the qpitch is the block
  count of an aligned height that is: the aligned level-0 height when there
  is one mip level (\<open>last_level = 0\<close>); that plus the aligned height of
  level 1 when there are two; and that plus the larger of the aligned height
  of level 1 and the sum of the aligned heights of levels 2 to the last when
  there are more.  The alignment is the vertical alignment of the surface
  times the block height of the format; sums and maximum are those of 32-bit
  unsigned arithmetic.
\<close>

theorem qpitch_staircase_height:
  assumes "layout_precondition env (base res)"
    and "target (base res) \<noteq> PIPE_TEXTURE_1D" "target (base res) \<noteq> PIPE_TEXTURE_1D_ARRAY"
  shows "\<exists>ok res' h'. swr_texture_layout env h res allocate = Inr (ok, res', h')
           \<and> qpitch (swr res') =
               util_format_get_nblocksy env (layout_fmt env (base res))
                 (if last_level (base res) = 0 then
                    align (height0 (base res))
                      (surface_valign env (base res)
                         * util_format_get_blockheight env (layout_fmt env (base res)))
                  else if last_level (base res) = 1 then
                    align (height0 (base res))
                      (surface_valign env (base res)
                         * util_format_get_blockheight env (layout_fmt env (base res)))
                    + align (u_minify (height0 (base res)) 1)
                        (surface_valign env (base res)
                           * util_format_get_blockheight env (layout_fmt env (base res)))
                  else
                    align (height0 (base res))
                      (surface_valign env (base res)
                         * util_format_get_blockheight env (layout_fmt env (base res)))
                    + max (align (u_minify (height0 (base res)) 1)
                             (surface_valign env (base res)
                                * util_format_get_blockheight env (layout_fmt env (base res))))
                          (\<Sum>L = 2..last_level (base res).
                             align (u_minify (height0 (base res)) L)
                               (surface_valign env (base res)
                                  * util_format_get_blockheight env (layout_fmt env (base res)))))"
proof -
  from swr_texture_layout_Inr [OF assms(1), of h allocate]
  obtain res' h' where r:
    "swr_texture_layout env h res allocate =
       Inr (total_size (swr (layout_surface_state env res)) \<le> SWR_MAX_TEXTURE_SIZE, res', h')"
    "qpitch (swr res') = qpitch (swr (layout_surface_state env res))"
    by blast
  show ?thesis
    using r layout_surface_state_pitch_2d(2) [OF assms(2,3), of env]
    by (simp only: layout_height_2d_closed) blast
qed

theorem qpitch_staircase_height_witness:
  "layout_precondition sample_env
     (sample_texture (PIPE_FORMAT ''R8G8B8A8_UNORM'') PIPE_TEXTURE_2D 16 16 1 4
        {PIPE_BIND_RENDER_TARGET})
   \<and> (\<exists>ok res' h'.
         swr_texture_layout sample_env sample_heap
           (new_resource sample_env (sample_texture (PIPE_FORMAT ''R8G8B8A8_UNORM'') PIPE_TEXTURE_2D
              16 16 1 4 {PIPE_BIND_RENDER_TARGET})) True = Inr (ok, res', h')
         \<and> qpitch (swr res') = 32 + (32 + 32 + 32))"
proof -
  let ?pt = "sample_texture (PIPE_FORMAT ''R8G8B8A8_UNORM'') PIPE_TEXTURE_2D 16 16 1 4
               {PIPE_BIND_RENDER_TARGET}"
  have pre: "layout_precondition sample_env ?pt"
    by (simp add: layout_precondition_def layout_fmt_def sample_defs format_query_defs
        mesa_to_swr_format_def mesa2swr_def)
  have b: "base (new_resource sample_env ?pt) = ?pt" by (simp add: new_resource_def)
  have "\<exists>ok res' h'.
         swr_texture_layout sample_env sample_heap (new_resource sample_env ?pt) True = Inr (ok, res', h')
         \<and> qpitch (swr res') = 32 + (32 + 32 + 32)"
    using qpitch_staircase_height [of sample_env "new_resource sample_env ?pt" sample_heap True] pre
    by (simp add: b)
       (simp add: layout_fmt_def sample_defs format_query_defs surface_valign_def
          align_def u_minify_def sum.atLeast_Suc_atMost)
  with pre show ?thesis by blast
qed

text \<open>
  For a 16 by 16 texture of the stencil-only format
  \<^verbatim>\<open>PIPE_FORMAT_X24S8_UINT\<close> with five mip levels the pitch is 16, where
  the pitch width converted to a byte stride of the descriptor's own format
  is 64.
\<close>

theorem pitch_width_stencil_only:
  "swr_texture_layout sample_env sample_heap
     (new_resource sample_env
      (sample_texture (PIPE_FORMAT ''X24S8_UINT'') PIPE_TEXTURE_2D 16 16 1 4
        {PIPE_BIND_SAMPLER_VIEW})) False
     = Inr (True,
            (layout_fixed_up sample_env (new_resource sample_env
      (sample_texture (PIPE_FORMAT ''X24S8_UINT'') PIPE_TEXTURE_2D 16 16 1 4
        {PIPE_BIND_SAMPLER_VIEW})) (SWR ''R8_UINT'')),
            sample_heap)
   \<and> pitch (swr (layout_fixed_up sample_env (new_resource sample_env
      (sample_texture (PIPE_FORMAT ''X24S8_UINT'') PIPE_TEXTURE_2D 16 16 1 4
        {PIPE_BIND_SAMPLER_VIEW})) (SWR ''R8_UINT''))) = 16
   \<and> util_format_get_stride sample_env (PIPE_FORMAT ''X24S8_UINT'')
         (layout_width_2d 16 4 (surface_halign sample_env
      (sample_texture (PIPE_FORMAT ''X24S8_UINT'') PIPE_TEXTURE_2D 16 16 1 4
        {PIPE_BIND_SAMPLER_VIEW})
            * util_format_get_blockwidth sample_env (PIPE_FORMAT ''X24S8_UINT''))) = 64"
proof -
  let ?pt = "sample_texture (PIPE_FORMAT ''X24S8_UINT'') PIPE_TEXTURE_2D 16 16 1 4
        {PIPE_BIND_SAMPLER_VIEW}"
  let ?R = "layout_fixed_up sample_env (new_resource sample_env ?pt) (SWR ''R8_UINT'')"
  have t: "total_size (swr (layout_surface_state sample_env (new_resource sample_env ?pt)))
             \<le> SWR_MAX_TEXTURE_SIZE"
    by (simp add: total_size_def layout_eval_defs layout_width_1d_def levels_loop.simps
          sample_defs format_query_defs Let_def SWR_MAX_TEXTURE_SIZE_def)
  note 1 = swr_texture_layout_dry_accept [OF x24s8_sample_fixup t, of sample_heap]
  have 2: "pitch (swr ?R) = 16"
    by (simp add: layout_fixed_up_fields)
       (simp add: layout_eval_defs sample_defs format_query_defs Let_def)
  have 3: "util_format_get_stride sample_env (PIPE_FORMAT ''X24S8_UINT'')
             (layout_width_2d 16 4 (surface_halign sample_env ?pt
                * util_format_get_blockwidth sample_env (PIPE_FORMAT ''X24S8_UINT''))) = 64"
    by (simp add: surface_halign_def layout_width_2d_def align_def u_minify_def Let_def
          sample_defs format_query_defs)
  from 1 2 3 show ?thesis by blast
qed

text \<open>
  C3 (as amended).  For every target other than the two 1D ones, the pitch
  is the byte stride of a width that is the level-0 width aligned to the
  horizontal alignment times the block width, replaced, only when there are
  more than two mip levels, by the sum of the aligned widths of levels 1 and
  2 if that is larger; block width and stride are those of
  the layout format, which is \<^verbatim>\<open>PIPE_FORMAT_R8_UINT\<close> when the format of
  the descriptor has stencil and no depth and the format of the descriptor
  otherwise.  In the scenario of the specification, a width of 16 with
  five levels and an alignment of 1 keeps the pitch width 16.
\<close>

theorem pitch_width_widening:
  assumes "layout_precondition env (base res)"
    and "target (base res) \<noteq> PIPE_TEXTURE_1D" "target (base res) \<noteq> PIPE_TEXTURE_1D_ARRAY"
  shows "\<exists>ok res' h' fmt. swr_texture_layout env h res allocate = Inr (ok, res', h')
           \<and> fmt = (if util_format_has_stencil env (format (base res))
                       \<and> \<not> util_format_has_depth env (format (base res))
                    then PIPE_FORMAT ''R8_UINT'' else format (base res))
           \<and> pitch (swr res') =
               util_format_get_stride env fmt
                 (if 1 < last_level (base res) then
                    max (align (width0 (base res))
                           (surface_halign env (base res)
                              * util_format_get_blockwidth env fmt))
                        (align (u_minify (width0 (base res)) 1)
                           (surface_halign env (base res)
                              * util_format_get_blockwidth env fmt)
                         + align (u_minify (width0 (base res)) 2)
                             (surface_halign env (base res)
                                * util_format_get_blockwidth env fmt))
                  else
                    align (width0 (base res))
                      (surface_halign env (base res)
                         * util_format_get_blockwidth env fmt))"
proof -
  from swr_texture_layout_Inr [OF assms(1), of h allocate]
  obtain res' h' where r:
    "swr_texture_layout env h res allocate =
       Inr (total_size (swr (layout_surface_state env res)) \<le> SWR_MAX_TEXTURE_SIZE, res', h')"
    "pitch (swr res') = pitch (swr (layout_surface_state env res))"
    by blast
  have "\<exists>ok res' h'. swr_texture_layout env h res allocate = Inr (ok, res', h')
           \<and> pitch (swr res') =
               util_format_get_stride env (layout_fmt env (base res))
                 (if 1 < last_level (base res) then
                    max (align (width0 (base res))
                           (surface_halign env (base res)
                              * util_format_get_blockwidth env (layout_fmt env (base res))))
                        (align (u_minify (width0 (base res)) 1)
                           (surface_halign env (base res)
                              * util_format_get_blockwidth env (layout_fmt env (base res)))
                         + align (u_minify (width0 (base res)) 2)
                             (surface_halign env (base res)
                                * util_format_get_blockwidth env (layout_fmt env (base res))))
                  else
                    align (width0 (base res))
                      (surface_halign env (base res)
                         * util_format_get_blockwidth env (layout_fmt env (base res))))"
    using r layout_surface_state_pitch_2d(1) [OF assms(2,3), of env]
    by (simp only: layout_width_2d_def Let_def) blast
  then show ?thesis unfolding layout_fmt_def by simp
qed

theorem pitch_width_widening_witness:
  "layout_precondition sample_env
     (sample_texture (PIPE_FORMAT ''R8_UNORM'') PIPE_TEXTURE_2D 16 16 1 4
        {PIPE_BIND_SAMPLER_VIEW})
   \<and> surface_halign sample_env
       (sample_texture (PIPE_FORMAT ''R8_UNORM'') PIPE_TEXTURE_2D 16 16 1 4
          {PIPE_BIND_SAMPLER_VIEW})
       * util_format_get_blockwidth sample_env (PIPE_FORMAT ''R8_UNORM'') = 1
   \<and> layout_width_2d 16 4 1 = 16
   \<and> (\<exists>ok res' h'.
         swr_texture_layout sample_env sample_heap
           (new_resource sample_env (sample_texture (PIPE_FORMAT ''R8_UNORM'') PIPE_TEXTURE_2D
              16 16 1 4 {PIPE_BIND_SAMPLER_VIEW})) True = Inr (ok, res', h')
         \<and> pitch (swr res') = 16)"
proof -
  let ?pt = "sample_texture (PIPE_FORMAT ''R8_UNORM'') PIPE_TEXTURE_2D 16 16 1 4
               {PIPE_BIND_SAMPLER_VIEW}"
  have pre: "layout_precondition sample_env ?pt"
    by (simp add: layout_precondition_def layout_fmt_def sample_defs format_query_defs
        mesa_to_swr_format_def mesa2swr_def)
  have ha: "surface_halign sample_env ?pt
              * util_format_get_blockwidth sample_env (PIPE_FORMAT ''R8_UNORM'') = 1"
    by (simp add: surface_halign_def sample_defs format_query_defs)
  have w: "layout_width_2d 16 4 1 = 16"
    by (simp add: layout_width_2d_def align_def u_minify_def Let_def)
  have b: "base (new_resource sample_env ?pt) = ?pt" by (simp add: new_resource_def)
  have "\<exists>ok res' h'.
         swr_texture_layout sample_env sample_heap (new_resource sample_env ?pt) True = Inr (ok, res', h')
         \<and> pitch (swr res') = 16"
    using pitch_width_widening [of sample_env "new_resource sample_env ?pt" sample_heap True] pre
    by (simp add: b)
       (simp add: layout_fmt_def sample_defs format_query_defs surface_halign_def
          align_def u_minify_def)
  with pre ha w show ?thesis by blast
qed

text \<open>
  For a 1D texture of the stencil-only format \<^verbatim>\<open>PIPE_FORMAT_X24S8_UINT\<close>
  the pitch is 1, where the block size of the descriptor's own format is 4.
\<close>

theorem one_dimensional_pitch_stencil_only:
  "swr_texture_layout sample_env sample_heap
     (new_resource sample_env
      (sample_texture (PIPE_FORMAT ''X24S8_UINT'') PIPE_TEXTURE_1D 16 1 1 0
        {PIPE_BIND_SAMPLER_VIEW})) False
     = Inr (True,
            (layout_fixed_up sample_env (new_resource sample_env
      (sample_texture (PIPE_FORMAT ''X24S8_UINT'') PIPE_TEXTURE_1D 16 1 1 0
        {PIPE_BIND_SAMPLER_VIEW})) (SWR ''R8_UINT'')),
            sample_heap)
   \<and> pitch (swr (layout_fixed_up sample_env (new_resource sample_env
      (sample_texture (PIPE_FORMAT ''X24S8_UINT'') PIPE_TEXTURE_1D 16 1 1 0
        {PIPE_BIND_SAMPLER_VIEW})) (SWR ''R8_UINT''))) = 1
   \<and> util_format_get_blocksize sample_env (PIPE_FORMAT ''X24S8_UINT'') = 4"
proof -
  let ?pt = "sample_texture (PIPE_FORMAT ''X24S8_UINT'') PIPE_TEXTURE_1D 16 1 1 0
        {PIPE_BIND_SAMPLER_VIEW}"
  let ?R = "layout_fixed_up sample_env (new_resource sample_env ?pt) (SWR ''R8_UINT'')"
  have t: "total_size (swr (layout_surface_state sample_env (new_resource sample_env ?pt)))
             \<le> SWR_MAX_TEXTURE_SIZE"
    by (simp add: total_size_def layout_eval_defs layout_width_1d_def levels_loop.simps
          sample_defs format_query_defs Let_def SWR_MAX_TEXTURE_SIZE_def)
  note 1 = swr_texture_layout_dry_accept [OF x24s8_sample_fixup t, of sample_heap]
  have 2: "pitch (swr ?R) = 1"
    by (simp add: layout_fixed_up_fields)
       (simp add: layout_eval_defs sample_defs format_query_defs Let_def)
  have 3: "util_format_get_blocksize sample_env (PIPE_FORMAT ''X24S8_UINT'') = 4"
    by (simp add: sample_defs format_query_defs)
  from 1 2 3 show ?thesis by blast
qed

text \<open>
  C8 (as amended).  For a 1D or 1D-array target the pitch is the block
  size, and the qpitch is the block count of the level-0 width, aligned to
  the horizontal alignment times the block width, plus the aligned widths of
  the minified levels 1 to the last; block size, block width and block count
  are those of the layout format, which is \<^verbatim>\<open>PIPE_FORMAT_R8_UINT\<close> when the format of
  the descriptor has stencil and no depth and the format of the descriptor
  otherwise.
\<close>

theorem one_dimensional_pitch_qpitch:
  assumes "layout_precondition env (base res)"
    and "target (base res) = PIPE_TEXTURE_1D \<or> target (base res) = PIPE_TEXTURE_1D_ARRAY"
  shows "\<exists>ok res' h' fmt. swr_texture_layout env h res allocate = Inr (ok, res', h')
           \<and> fmt = (if util_format_has_stencil env (format (base res))
                       \<and> \<not> util_format_has_depth env (format (base res))
                    then PIPE_FORMAT ''R8_UINT'' else format (base res))
           \<and> pitch (swr res') = util_format_get_blocksize env fmt
           \<and> qpitch (swr res') =
               util_format_get_nblocksx env fmt
                 (align (width0 (base res))
                    (surface_halign env (base res)
                       * util_format_get_blockwidth env fmt)
                  + (\<Sum>L = 1..last_level (base res).
                       align (u_minify (width0 (base res)) L)
                         (surface_halign env (base res)
                            * util_format_get_blockwidth env fmt)))"
proof -
  from swr_texture_layout_Inr [OF assms(1), of h allocate]
  obtain res' h' where r:
    "swr_texture_layout env h res allocate =
       Inr (total_size (swr (layout_surface_state env res)) \<le> SWR_MAX_TEXTURE_SIZE, res', h')"
    "pitch (swr res') = pitch (swr (layout_surface_state env res))"
    "qpitch (swr res') = qpitch (swr (layout_surface_state env res))"
    by blast
  have "\<exists>ok res' h'. swr_texture_layout env h res allocate = Inr (ok, res', h')
           \<and> pitch (swr res') = util_format_get_blocksize env (layout_fmt env (base res))
           \<and> qpitch (swr res') =
               util_format_get_nblocksx env (layout_fmt env (base res))
                 (align (width0 (base res))
                    (surface_halign env (base res)
                       * util_format_get_blockwidth env (layout_fmt env (base res)))
                  + (\<Sum>L = 1..last_level (base res).
                       align (u_minify (width0 (base res)) L)
                         (surface_halign env (base res)
                            * util_format_get_blockwidth env (layout_fmt env (base res)))))"
    using r layout_surface_state_pitch_1d [OF assms(2), of env]
    by (simp only: layout_width_1d_closed) blast
  then show ?thesis unfolding layout_fmt_def by simp
qed

theorem one_dimensional_pitch_qpitch_witness:
  "layout_precondition sample_env
     (sample_texture (PIPE_FORMAT ''R8G8B8A8_UNORM'') PIPE_TEXTURE_1D_ARRAY 16 1 3 4
        {PIPE_BIND_SAMPLER_VIEW})
   \<and> (\<exists>ok res' h'.
         swr_texture_layout sample_env sample_heap
           (new_resource sample_env (sample_texture (PIPE_FORMAT ''R8G8B8A8_UNORM'') PIPE_TEXTURE_1D_ARRAY
              16 1 3 4 {PIPE_BIND_SAMPLER_VIEW})) True = Inr (ok, res', h')
         \<and> pitch (swr res') = 4 \<and> qpitch (swr res') = 16 + (8 + 4 + 2 + 1))"
proof -
  let ?pt = "sample_texture (PIPE_FORMAT ''R8G8B8A8_UNORM'') PIPE_TEXTURE_1D_ARRAY 16 1 3 4
               {PIPE_BIND_SAMPLER_VIEW}"
  have pre: "layout_precondition sample_env ?pt"
    by (simp add: layout_precondition_def layout_fmt_def sample_defs format_query_defs
        mesa_to_swr_format_def mesa2swr_def)
  have b: "base (new_resource sample_env ?pt) = ?pt" by (simp add: new_resource_def)
  have "\<exists>ok res' h'.
         swr_texture_layout sample_env sample_heap (new_resource sample_env ?pt) True = Inr (ok, res', h')
         \<and> pitch (swr res') = 4 \<and> qpitch (swr res') = 16 + (8 + 4 + 2 + 1)"
    using one_dimensional_pitch_qpitch [of sample_env "new_resource sample_env ?pt" sample_heap True] pre
    by (simp add: b)
       (simp add: layout_fmt_def sample_defs format_query_defs surface_halign_def
          align_def u_minify_def sum.atLeast_Suc_atMost)
  with pre show ?thesis by blast
qed

section \<open>The size check and the allocation\<close>

text \<open>
  C1.  Under the format precondition the layout computation returns, and it
  returns false exactly when the total byte size computed from the depth,
  qpitch and pitch of the surface exceeds \<open>SWR_MAX_TEXTURE_SIZE\<close>, which is
  4 GiB; when it returns false the allocator is left as it was, so no backing
  allocation has been made.  The witness runs two descriptors: one whose
  total is exactly 4 GiB and succeeds, one whose total is one byte more and
  fails.
\<close>

theorem size_check_decides_failure:
  assumes "layout_precondition env (base res)"
  shows "\<exists>ok res' h'. swr_texture_layout env h res allocate = Inr (ok, res', h')
           \<and> total_size (swr res') = total_size (swr (layout_surface_state env res))
           \<and> (\<not> ok) = (SWR_MAX_TEXTURE_SIZE < total_size (swr res'))
           \<and> (\<not> ok \<longrightarrow> h' = h)
           \<and> unat SWR_MAX_TEXTURE_SIZE = 2 ^ 32"
proof -
  from swr_texture_layout_Inr [OF assms, of h allocate]
  obtain res' h' where r:
    "swr_texture_layout env h res allocate =
       Inr (total_size (swr (layout_surface_state env res)) \<le> SWR_MAX_TEXTURE_SIZE, res', h')"
    "pitch (swr res') = pitch (swr (layout_surface_state env res))"
    "qpitch (swr res') = qpitch (swr (layout_surface_state env res))"
    "depth (swr res') = depth (swr (layout_surface_state env res))"
    "SWR_MAX_TEXTURE_SIZE < total_size (swr (layout_surface_state env res)) \<longrightarrow> h' = h"
    by blast
  have t: "total_size (swr res') = total_size (swr (layout_surface_state env res))"
    using r(2-4) by (simp add: total_size_def)
  have m: "unat SWR_MAX_TEXTURE_SIZE = 2 ^ 32"
    by (simp add: SWR_MAX_TEXTURE_SIZE_def)
  show ?thesis
    using r(1,5) t m by (simp add: not_le)
qed

theorem size_check_decides_failure_witness:
  "layout_precondition sample_env
     (sample_texture (PIPE_FORMAT ''R8_UNORM'') PIPE_TEXTURE_2D 131072 32768 1 0
        {PIPE_BIND_SAMPLER_VIEW})
   \<and> (\<exists>ok res' h'.
         swr_texture_layout sample_env sample_heap
           (new_resource sample_env (sample_texture (PIPE_FORMAT ''R8_UNORM'') PIPE_TEXTURE_2D
              131072 32768 1 0 {PIPE_BIND_SAMPLER_VIEW})) True = Inr (ok, res', h')
         \<and> total_size (swr res') = SWR_MAX_TEXTURE_SIZE \<and> ok)
   \<and> layout_precondition sample_env
     (sample_texture (PIPE_FORMAT ''R8_UNORM'') PIPE_TEXTURE_2D 6700417 641 1 0
        {PIPE_BIND_SAMPLER_VIEW})
   \<and> (\<exists>ok res' h'.
         swr_texture_layout sample_env sample_heap
           (new_resource sample_env (sample_texture (PIPE_FORMAT ''R8_UNORM'') PIPE_TEXTURE_2D
              6700417 641 1 0 {PIPE_BIND_SAMPLER_VIEW})) True = Inr (ok, res', h')
         \<and> total_size (swr res') = SWR_MAX_TEXTURE_SIZE + 1 \<and> \<not> ok \<and> h' = sample_heap)"
proof -
  let ?p1 = "sample_texture (PIPE_FORMAT ''R8_UNORM'') PIPE_TEXTURE_2D 131072 32768 1 0
               {PIPE_BIND_SAMPLER_VIEW}"
  let ?p2 = "sample_texture (PIPE_FORMAT ''R8_UNORM'') PIPE_TEXTURE_2D 6700417 641 1 0
               {PIPE_BIND_SAMPLER_VIEW}"
  have pre1: "layout_precondition sample_env ?p1"
    by (simp add: layout_precondition_def layout_fmt_def sample_defs format_query_defs
        mesa_to_swr_format_def mesa2swr_def)
  have pre2: "layout_precondition sample_env ?p2"
    by (simp add: layout_precondition_def layout_fmt_def sample_defs format_query_defs
        mesa_to_swr_format_def mesa2swr_def)
  have b1: "base (new_resource sample_env ?p1) = ?p1" and b2: "base (new_resource sample_env ?p2) = ?p2"
    by (simp_all add: new_resource_def)
  have t1: "total_size (swr (layout_surface_state sample_env (new_resource sample_env ?p1)))
              = SWR_MAX_TEXTURE_SIZE"
    by (simp add: total_size_def layout_surface_state_def Let_def layout_fmt_def sample_defs
        format_query_defs surface_halign_def surface_valign_def layout_width_2d_def
        layout_height_2d_def align_def SWR_MAX_TEXTURE_SIZE_def)
  have t2: "total_size (swr (layout_surface_state sample_env (new_resource sample_env ?p2)))
              = SWR_MAX_TEXTURE_SIZE + 1"
    by (simp add: total_size_def layout_surface_state_def Let_def layout_fmt_def sample_defs
        format_query_defs surface_halign_def surface_valign_def layout_width_2d_def
        layout_height_2d_def align_def SWR_MAX_TEXTURE_SIZE_def)
  have lt: "SWR_MAX_TEXTURE_SIZE < SWR_MAX_TEXTURE_SIZE + 1"
    by (simp add: SWR_MAX_TEXTURE_SIZE_def)
  have w1: "\<exists>ok res' h'.
         swr_texture_layout sample_env sample_heap (new_resource sample_env ?p1) True = Inr (ok, res', h')
         \<and> total_size (swr res') = SWR_MAX_TEXTURE_SIZE \<and> ok"
    using size_check_decides_failure [of sample_env "new_resource sample_env ?p1" sample_heap True] pre1
    by (auto simp add: b1 t1)
  have w2: "\<exists>ok res' h'.
         swr_texture_layout sample_env sample_heap (new_resource sample_env ?p2) True = Inr (ok, res', h')
         \<and> total_size (swr res') = SWR_MAX_TEXTURE_SIZE + 1 \<and> \<not> ok \<and> h' = sample_heap"
    using size_check_decides_failure [of sample_env "new_resource sample_env ?p2" sample_heap True] pre2 lt
    by (auto simp add: b2 t2)
  from pre1 w1 pre2 w2 show ?thesis by blast
qed

text \<open>
  C4.  Whenever the layout computation accepts a descriptor, the total byte
  size it has checked against the maximum, and that it passes to the
  allocator when asked to allocate, is the product of the depth, qpitch and
  pitch of the surface, taken in the 64-bit arithmetic of \<^verbatim>\<open>size_t\<close>; the
  depth of the surface is the depth extent for a 3D target and the array
  size for every other target.
\<close>

theorem accepted_total_size:
  assumes "swr_texture_layout env h res allocate = Inr (True, res', h')"
  shows "total_size (swr res') \<le> SWR_MAX_TEXTURE_SIZE
         \<and> unat (total_size (swr res')) =
             (unat (depth (swr res')) * unat (qpitch (swr res')) * unat (pitch (swr res')))
               mod 2 ^ 64
         \<and> depth (swr res') =
             (if target (base res) = PIPE_TEXTURE_3D then depth0 (base res)
              else array_size (base res))
         \<and> (allocate \<longrightarrow>
               (\<exists>rest. allocations h' =
                  allocations h @ (total_size (swr res'), pBaseAddress (swr res')) # rest))
         \<and> (\<not> allocate \<longrightarrow> h' = h)"
proof -
  from swr_texture_layout_accepted [OF assms]
  obtain f where le: "total_size (swr (layout_fixed_up env res f)) \<le> SWR_MAX_TEXTURE_SIZE"
    and r: "if allocate
            then res' = fst (layout_allocate env h (layout_fixed_up env res f))
                 \<and> h' = snd (layout_allocate env h (layout_fixed_up env res f))
            else res' = layout_fixed_up env res f \<and> h' = h"
    by blast
  let ?r3 = "layout_fixed_up env res f"
  have s: "\<exists>p. swr res' = (swr ?r3)\<lparr>pBaseAddress := p\<rparr>"
  proof (cases allocate)
    case True
    with r show ?thesis using layout_allocate_swr [of env h ?r3] by auto
  next
    case False
    with r have "swr res' = (swr ?r3)\<lparr>pBaseAddress := pBaseAddress (swr ?r3)\<rparr>" by simp
    then show ?thesis by blast
  qed
  then have t: "total_size (swr res') = total_size (swr ?r3)"
    by (auto simp: total_size_def)
  have d: "depth (swr res') = depth (swr (layout_surface_state env res))"
    using s by (auto simp: layout_fixed_up_fields)
  have a: "allocate \<longrightarrow>
             (\<exists>rest. allocations h' =
                allocations h @ (total_size (swr res'), pBaseAddress (swr res')) # rest)"
    using r layout_allocate_heap [of env h ?r3] t by auto
  have n: "\<not> allocate \<longrightarrow> h' = h" using r by auto
  have le': "total_size (swr res') \<le> SWR_MAX_TEXTURE_SIZE"
    using le t by simp
  have d': "depth (swr res') =
              (if target (base res) = PIPE_TEXTURE_3D then depth0 (base res)
               else array_size (base res))"
    using d by (simp add: layout_surface_state_depth)
  note u = total_size_unat [of "swr res'"]
  from le' u d' a n show ?thesis by blast
qed

theorem accepted_total_size_witness:
  "\<exists>res' h'.
     swr_texture_layout sample_env sample_heap
       (new_resource sample_env (sample_texture (PIPE_FORMAT ''R8G8B8A8_UNORM'') PIPE_TEXTURE_3D 8 8 5 0
          {PIPE_BIND_SAMPLER_VIEW})) True = Inr (True, res', h')
     \<and> depth (swr res') = 5
     \<and> total_size (swr res') = 5 * 8 * 32
     \<and> (\<exists>rest. allocations h' = (5 * 8 * 32, pBaseAddress (swr res')) # rest)"
proof -
  let ?pt = "sample_texture (PIPE_FORMAT ''R8G8B8A8_UNORM'') PIPE_TEXTURE_3D 8 8 5 0
               {PIPE_BIND_SAMPLER_VIEW}"
  have pre: "layout_precondition sample_env (base (new_resource sample_env ?pt))"
    by (simp add: layout_precondition_def layout_fmt_def sample_defs format_query_defs
        mesa_to_swr_format_def mesa2swr_def)
  have t: "total_size (swr (layout_surface_state sample_env (new_resource sample_env ?pt))) = 5 * 8 * 32"
    by (simp add: total_size_def layout_surface_state_def Let_def layout_fmt_def sample_defs
        format_query_defs surface_halign_def surface_valign_def layout_width_2d_def
        layout_height_2d_def align_def)
  from swr_texture_layout_Inr [OF pre, of sample_heap True]
  obtain res' h' where r:
    "swr_texture_layout sample_env sample_heap (new_resource sample_env ?pt) True =
       Inr (total_size (swr (layout_surface_state sample_env (new_resource sample_env ?pt)))
              \<le> SWR_MAX_TEXTURE_SIZE, res', h')"
    and f: "pitch (swr res') = pitch (swr (layout_surface_state sample_env (new_resource sample_env ?pt)))"
       "qpitch (swr res') = qpitch (swr (layout_surface_state sample_env (new_resource sample_env ?pt)))"
       "depth (swr res') = depth (swr (layout_surface_state sample_env (new_resource sample_env ?pt)))"
    by blast
  have acc: "swr_texture_layout sample_env sample_heap (new_resource sample_env ?pt) True =
               Inr (True, res', h')"
    using r by (simp add: t SWR_MAX_TEXTURE_SIZE_def)
  have t': "total_size (swr res') = 5 * 8 * 32"
    using f t by (simp add: total_size_def)
  have "depth (swr res') = 5
        \<and> (\<exists>rest. allocations h' = (5 * 8 * 32, pBaseAddress (swr res')) # rest)"
    using accepted_total_size [OF acc]
    by (simp add: t' sample_defs)
  with acc t' show ?thesis by blast
qed

section \<open>Format substitution\<close>

text \<open>
  The stencil-only format \<^verbatim>\<open>PIPE_FORMAT_X24S8_UINT\<close> has no rasterizer
  format and four bytes per block; the surface state receives
  \<^verbatim>\<open>R8_UINT\<close> for it, not \<^verbatim>\<open>R32_UINT\<close>.
\<close>

theorem format_substitution_stencil_only:
  "swr_texture_layout sample_env sample_heap
     (new_resource sample_env
      (sample_texture (PIPE_FORMAT ''X24S8_UINT'') PIPE_TEXTURE_2D 4 4 1 0
        {PIPE_BIND_SAMPLER_VIEW})) False
     = Inr (True,
            (layout_fixed_up sample_env (new_resource sample_env
      (sample_texture (PIPE_FORMAT ''X24S8_UINT'') PIPE_TEXTURE_2D 4 4 1 0
        {PIPE_BIND_SAMPLER_VIEW})) (SWR ''R8_UINT'')),
            sample_heap)
   \<and> mesa_to_swr_format (PIPE_FORMAT ''X24S8_UINT'') = SWR_FORMAT_NONE
   \<and> util_format_get_blocksize sample_env (PIPE_FORMAT ''X24S8_UINT'') = 4
   \<and> swr_format (swr (layout_fixed_up sample_env (new_resource sample_env
      (sample_texture (PIPE_FORMAT ''X24S8_UINT'') PIPE_TEXTURE_2D 4 4 1 0
        {PIPE_BIND_SAMPLER_VIEW})) (SWR ''R8_UINT''))) = SWR ''R8_UINT''
   \<and> SWR ''R8_UINT'' \<noteq> SWR ''R32_UINT''"
proof -
  let ?pt = "sample_texture (PIPE_FORMAT ''X24S8_UINT'') PIPE_TEXTURE_2D 4 4 1 0
        {PIPE_BIND_SAMPLER_VIEW}"
  let ?R = "layout_fixed_up sample_env (new_resource sample_env ?pt) (SWR ''R8_UINT'')"
  have t: "total_size (swr (layout_surface_state sample_env (new_resource sample_env ?pt)))
             \<le> SWR_MAX_TEXTURE_SIZE"
    by (simp add: total_size_def layout_eval_defs layout_width_1d_def levels_loop.simps
          sample_defs format_query_defs Let_def SWR_MAX_TEXTURE_SIZE_def)
  note 1 = swr_texture_layout_dry_accept [OF x24s8_sample_fixup t, of sample_heap]
  have 2: "swr_format (swr ?R) = SWR ''R8_UINT''"
    by (simp add: layout_fixed_up_fields)
  have 3: "util_format_get_blocksize sample_env (PIPE_FORMAT ''X24S8_UINT'') = 4"
    by (simp add: sample_defs format_query_defs)
  have 4: "SWR ''R8_UINT'' \<noteq> SWR ''R32_UINT''" by simp
  from 1 2 3 4 mesa_to_swr_format_X24S8 show ?thesis by blast
qed

text \<open>
  C7 (as amended).  When the logical format of the descriptor has no
  rasterizer format and its block size is one of 1, 2, 4, 8 and 16 bytes,
  the surface state receives a generic format: for a stencil-only format
  (stencil and no depth), which is laid out as \<^verbatim>\<open>PIPE_FORMAT_R8_UINT\<close>,
  that is \<^verbatim>\<open>R8_UINT\<close> whatever the byte size; for every other format it is
  \<^verbatim>\<open>R8_UINT\<close>, \<^verbatim>\<open>R16_UINT\<close>, \<^verbatim>\<open>R32_UINT\<close> for 1, 2, 4 bytes,
  \<^verbatim>\<open>BC4_UNORM\<close> for a compressed format of 8 bytes and \<^verbatim>\<open>R32G32_UINT\<close>
  otherwise, \<^verbatim>\<open>BC5_UNORM\<close> for a compressed format of 16 bytes and
  \<^verbatim>\<open>R32G32B32A32_UINT\<close> otherwise.  The substituted format is the one the
  offset routine is given for every level, together with the pitch and
  qpitch of the layout; the format of the resource itself is left as the
  caller gave it.
\<close>

theorem format_substitution:
  assumes "mesa_to_swr_format (format (base res)) = SWR_FORMAT_NONE"
    and "util_format_get_blocksize env (format (base res)) \<in> {1, 2, 4, 8, 16}"
  shows "\<exists>ok res' h'. swr_texture_layout env h res allocate = Inr (ok, res', h')
           \<and> swr_format (swr res') =
               (if util_format_has_stencil env (format (base res))
                   \<and> \<not> util_format_has_depth env (format (base res))
                then SWR ''R8_UINT''
                else if util_format_get_blocksize env (format (base res)) = 1
                then SWR ''R8_UINT''
                else if util_format_get_blocksize env (format (base res)) = 2
                then SWR ''R16_UINT''
                else if util_format_get_blocksize env (format (base res)) = 4
                then SWR ''R32_UINT''
                else if util_format_get_blocksize env (format (base res)) = 8
                then (if util_format_is_compressed env (format (base res))
                      then SWR ''BC4_UNORM'' else SWR ''R32G32_UINT'')
                else (if util_format_is_compressed env (format (base res))
                      then SWR ''BC5_UNORM'' else SWR ''R32G32B32A32_UINT''))
           \<and> format (base res') = format (base res)
           \<and> pitch (swr res') = pitch (swr (layout_surface_state env res))
           \<and> qpitch (swr res') = qpitch (swr (layout_surface_state env res))
           \<and> (\<forall>level \<le> last_level (base res).
                 mip_offsets res' level =
                   ComputeSurfaceOffset env level
                     ((swr res')\<lparr>pBaseAddress := pBaseAddress (swr res)\<rparr>))"
proof (cases "util_format_has_stencil env (format (base res))
                \<and> \<not> util_format_has_depth env (format (base res))")
  case True
  then have lf: "layout_fmt env (base res) = PIPE_FORMAT ''R8_UINT''"
    by (simp add: layout_fmt_def)
  have fx: "fixup_swr_format env (layout_fmt env (base res))
              (mesa_to_swr_format (layout_fmt env (base res))) = Inr (SWR ''R8_UINT'')"
    by (simp add: lf mesa_to_swr_format_R8_UINT fixup_swr_format_def)
  from swr_texture_layout_Inr_offsets [OF fx, of h allocate] True
  show ?thesis by auto
next
  case False
  then have lf: "layout_fmt env (base res) = format (base res)"
    by (auto simp: layout_fmt_def)
  note fx = fixup_swr_format_none [OF assms(2), folded assms(1)]
  from swr_texture_layout_Inr_offsets [of env res _ h allocate, OF fx [folded lf]] False
  show ?thesis by (auto simp del: insert_iff simp: lf)
qed

theorem format_substitution_witness:
  "mesa_to_swr_format (format
      (sample_texture (PIPE_FORMAT ''DXT1_RGBA'') PIPE_TEXTURE_2D 16 16 1 2
         {PIPE_BIND_SAMPLER_VIEW})) = SWR_FORMAT_NONE
   \<and> util_format_get_blocksize sample_env (PIPE_FORMAT ''DXT1_RGBA'') = 8
   \<and> (\<exists>ok res' h'.
         swr_texture_layout sample_env sample_heap
           (new_resource sample_env (sample_texture (PIPE_FORMAT ''DXT1_RGBA'') PIPE_TEXTURE_2D
              16 16 1 2 {PIPE_BIND_SAMPLER_VIEW})) True = Inr (ok, res', h')
         \<and> swr_format (swr res') = SWR ''BC4_UNORM''
         \<and> format (base res') = PIPE_FORMAT ''DXT1_RGBA''
         \<and> (\<forall>level \<le> 2.
               mip_offsets res' level =
                 ComputeSurfaceOffset sample_env level ((swr res')\<lparr>pBaseAddress := None\<rparr>)))"
proof -
  let ?pt = "sample_texture (PIPE_FORMAT ''DXT1_RGBA'') PIPE_TEXTURE_2D 16 16 1 2
               {PIPE_BIND_SAMPLER_VIEW}"
  have f: "format (base (new_resource sample_env ?pt)) = PIPE_FORMAT ''DXT1_RGBA''"
    "last_level (base (new_resource sample_env ?pt)) = 2"
    "pBaseAddress (swr (new_resource sample_env ?pt)) = None"
    by (simp_all add: sample_defs)
  have bs: "util_format_get_blocksize sample_env (PIPE_FORMAT ''DXT1_RGBA'') = 8"
    and cp: "util_format_is_compressed sample_env (PIPE_FORMAT ''DXT1_RGBA'')"
    and ns: "\<not> util_format_has_stencil sample_env (PIPE_FORMAT ''DXT1_RGBA'')"
    by (simp_all add: sample_defs format_query_defs)
  have h1: "mesa_to_swr_format (format (base (new_resource sample_env ?pt))) = SWR_FORMAT_NONE"
    by (simp add: f mesa_to_swr_format_DXT1)
  have h2: "util_format_get_blocksize sample_env (format (base (new_resource sample_env ?pt)))
              \<in> {1, 2, 4, 8, 16}"
    by (simp add: f bs)
  from format_substitution [OF h1 h2, of sample_heap True]
  obtain ok res' h' where
    l: "swr_texture_layout sample_env sample_heap (new_resource sample_env ?pt) True
          = Inr (ok, res', h')"
    and sf: "swr_format (swr res') = SWR ''BC4_UNORM''"
    and lf: "format (base res') = PIPE_FORMAT ''DXT1_RGBA''"
    and mo: "\<forall>level \<le> 2. mip_offsets res' level =
               ComputeSurfaceOffset sample_env level ((swr res')\<lparr>pBaseAddress := None\<rparr>)"
    unfolding f bs by (simp add: cp ns) blast
  have m: "mesa_to_swr_format (format ?pt) = SWR_FORMAT_NONE"
    by (simp add: sample_texture_def mesa_to_swr_format_DXT1)
  from l sf lf mo m bs show ?thesis by blast
qed

section \<open>The stencil surface\<close>

text \<open>
  A depth+stencil descriptor laid out without the allocation step, as
  \<^verbatim>\<open>swr_can_create_resource\<close> and the displayable path do: the call
  succeeds and the secondary surface is still the zero-filled one, so its
  pitch is not the primary pitch divided by the block size.
\<close>

theorem stencil_surface_without_allocation:
  "swr_texture_layout sample_env sample_heap
     (new_resource sample_env (sample_texture (PIPE_FORMAT ''Z24_UNORM_S8_UINT'') PIPE_TEXTURE_2D 4 4 1 0
        {PIPE_BIND_SAMPLER_VIEW})) False
     = Inr (True,
            layout_fixed_up sample_env
              (new_resource sample_env (sample_texture (PIPE_FORMAT ''Z24_UNORM_S8_UINT'') PIPE_TEXTURE_2D
                 4 4 1 0 {PIPE_BIND_SAMPLER_VIEW}))
              (SWR ''R24_UNORM_X8_TYPELESS''),
            sample_heap)
   \<and> util_format_has_depth sample_env (PIPE_FORMAT ''Z24_UNORM_S8_UINT'')
   \<and> util_format_has_stencil sample_env (PIPE_FORMAT ''Z24_UNORM_S8_UINT'')
   \<and> secondary (layout_fixed_up sample_env
              (new_resource sample_env (sample_texture (PIPE_FORMAT ''Z24_UNORM_S8_UINT'') PIPE_TEXTURE_2D
                 4 4 1 0 {PIPE_BIND_SAMPLER_VIEW}))
              (SWR ''R24_UNORM_X8_TYPELESS'')) = zero_surface sample_env
   \<and> pitch (zero_surface sample_env)
       \<noteq> pitch (swr (layout_fixed_up sample_env
              (new_resource sample_env (sample_texture (PIPE_FORMAT ''Z24_UNORM_S8_UINT'') PIPE_TEXTURE_2D
                 4 4 1 0 {PIPE_BIND_SAMPLER_VIEW}))
              (SWR ''R24_UNORM_X8_TYPELESS'')))
           div util_format_get_blocksize sample_env (PIPE_FORMAT ''Z24_UNORM_S8_UINT'')"
proof -
  let ?pt = "sample_texture (PIPE_FORMAT ''Z24_UNORM_S8_UINT'') PIPE_TEXTURE_2D 4 4 1 0
               {PIPE_BIND_SAMPLER_VIEW}"
  let ?R = "layout_fixed_up sample_env (new_resource sample_env ?pt) (SWR ''R24_UNORM_X8_TYPELESS'')"
  have t: "\<not> total_size (swr ?R) > SWR_MAX_TEXTURE_SIZE"
    by (simp add: layout_fixed_up_total zs_4x4_layout SWR_MAX_TEXTURE_SIZE_def)
  have 1: "swr_texture_layout sample_env sample_heap (new_resource sample_env ?pt) False
             = Inr (True, ?R, sample_heap)"
    using swr_texture_layout_unfold [OF zs_4x4_layout(1), of sample_heap False] t by simp
  have 2: "util_format_has_depth sample_env (PIPE_FORMAT ''Z24_UNORM_S8_UINT'')"
     "util_format_has_stencil sample_env (PIPE_FORMAT ''Z24_UNORM_S8_UINT'')"
     "util_format_get_blocksize sample_env (PIPE_FORMAT ''Z24_UNORM_S8_UINT'') = 4"
    by (simp_all add: sample_defs format_query_defs)
  have 3: "secondary ?R = zero_surface sample_env"
    by (simp add: layout_fixed_up_fields) (simp add: new_resource_def)
  have 4: "pitch (swr ?R) = 16"
    by (simp add: layout_fixed_up_fields zs_4x4_layout)
  have 5: "pitch (zero_surface sample_env) = 0"
    by (simp add: zero_surface_def)
  from 1 2 3 show ?thesis by (simp add: 4 5)
qed

text \<open>
  C6 (as amended).  For a descriptor whose format combines depth and
  stencil, when the layout is computed with the allocation step and accepted,
  the secondary surface is the primary surface state with the format
  \<^verbatim>\<open>R8_UINT\<close> and with the primary pitch divided by the block size of the
  format as its pitch; its offset for every level up to the last is what the
  offset routine returns for that R8 surface (which at that point still
  carries the primary base address), as the primary offsets are what the
  routine returns for the primary surface before its base address is set.
  Its pitch and qpitch are those that the layout algorithm computes for the
  same texture with the single-channel format, whenever the two layouts are
  comparable.  Without the allocation step, or when the size check fails,
  the secondary surface and its offsets are left as they were.
\<close>

theorem stencil_surface_on_allocation:
  assumes "swr_texture_layout env h res allocate = Inr (ok, res', h')"
    and "util_format_has_depth env (format (base res))"
    and "util_format_has_stencil env (format (base res))"
  shows "(ok \<and> allocate \<longrightarrow>
           secondary res' =
             (swr res')\<lparr>swr_format := SWR ''R8_UINT'',
                        pitch := pitch (swr res')
                                   div util_format_get_blocksize env (format (base res)),
                        pBaseAddress := pBaseAddress (secondary res')\<rparr>
           \<and> (\<forall>level \<le> last_level (base res).
                 secondary_mip_offsets res' level =
                   ComputeSurfaceOffset env level
                     ((secondary res')\<lparr>pBaseAddress := pBaseAddress (swr res')\<rparr>)
                 \<and> mip_offsets res' level =
                   ComputeSurfaceOffset env level
                     ((swr res')\<lparr>pBaseAddress := pBaseAddress (swr res)\<rparr>))
           \<and> (stencil_layout_comparable env res \<longrightarrow>
                 pitch (secondary res') =
                   pitch (swr (layout_surface_state env (stencil_descriptor res)))
                 \<and> qpitch (secondary res') =
                   qpitch (swr (layout_surface_state env (stencil_descriptor res)))))
         \<and> (\<not> (ok \<and> allocate) \<longrightarrow>
              secondary res' = secondary res
              \<and> secondary_mip_offsets res' = secondary_mip_offsets res)"
proof -
  from swr_texture_layout_InrD [OF assms(1)]
  obtain f where r: "if ok \<and> allocate
            then res' = fst (layout_allocate env h (layout_fixed_up env res f))
                 \<and> h' = snd (layout_allocate env h (layout_fixed_up env res f))
            else res' = layout_fixed_up env res f \<and> h' = h"
    by blast
  let ?r3 = "layout_fixed_up env res f"
  have no: "secondary res' = secondary res \<and> secondary_mip_offsets res' = secondary_mip_offsets res"
    if "\<not> (ok \<and> allocate)"
    using r that by (simp add: layout_fixed_up_fields)
  have yes: "secondary res' =
             (swr res')\<lparr>swr_format := SWR ''R8_UINT'',
                        pitch := pitch (swr res')
                                   div util_format_get_blocksize env (format (base res)),
                        pBaseAddress := pBaseAddress (secondary res')\<rparr>
           \<and> (\<forall>level \<le> last_level (base res).
                 secondary_mip_offsets res' level =
                   ComputeSurfaceOffset env level
                     ((secondary res')\<lparr>pBaseAddress := pBaseAddress (swr res')\<rparr>)
                 \<and> mip_offsets res' level =
                   ComputeSurfaceOffset env level
                     ((swr res')\<lparr>pBaseAddress := pBaseAddress (swr res)\<rparr>))
           \<and> (stencil_layout_comparable env res \<longrightarrow>
                 pitch (secondary res') =
                   pitch (swr (layout_surface_state env (stencil_descriptor res)))
                 \<and> qpitch (secondary res') =
                   qpitch (swr (layout_surface_state env (stencil_descriptor res))))"
    if oa: "ok \<and> allocate"
  proof -
    from r oa have r': "res' = fst (layout_allocate env h ?r3)" by simp
    have ds: "has_depth ?r3" "has_stencil ?r3"
      using assms(2,3) by (simp_all add: layout_fixed_up_fields)
    have lf: "layout_fmt env (base ?r3) = format (base res)"
      using assms(2) by (simp add: layout_fmt_def layout_fixed_up_fields)
    have ll: "last_level (base ?r3) = last_level (base res)"
      by (simp add: layout_fixed_up_fields)
    note sec = layout_allocate_depth_stencil [OF ds, of env h, folded r', unfolded lf ll]
    have s: "swr res' = (swr ?r3)\<lparr>pBaseAddress := pBaseAddress (swr res')\<rparr>"
      unfolding r' by (simp add: layout_allocate_swr)
    have p0: "pBaseAddress (swr (layout_surface_state env res)) = pBaseAddress (swr res)"
      by (simp add: layout_surface_state_def Let_def)
    have 1: "secondary res' =
             (swr res')\<lparr>swr_format := SWR ''R8_UINT'',
                        pitch := pitch (swr res')
                                   div util_format_get_blocksize env (format (base res)),
                        pBaseAddress := pBaseAddress (secondary res')\<rparr>"
      by (subst sec(1)) (simp add: secondary_surface_def)
    have 2: "secondary_mip_offsets res' level =
               ComputeSurfaceOffset env level
                 ((secondary res')\<lparr>pBaseAddress := pBaseAddress (swr res')\<rparr>)"
      if "level \<le> last_level (base res)" for level
    proof -
      have "(secondary res')\<lparr>pBaseAddress := pBaseAddress (swr res')\<rparr> =
              secondary_surface env (format (base res)) (swr res')"
        by (subst sec(1)) (simp add: secondary_surface_def)
      then show ?thesis using that by (simp add: sec(2) mip_offsets_loop_at)
    qed
    have 3: "mip_offsets res' level =
               ComputeSurfaceOffset env level
                 ((swr res')\<lparr>pBaseAddress := pBaseAddress (swr res)\<rparr>)"
      if "level \<le> last_level (base res)" for level
    proof -
      have "(swr res')\<lparr>pBaseAddress := pBaseAddress (swr res)\<rparr> =
              (swr (layout_surface_state env res))\<lparr>swr_format := f\<rparr>"
        by (subst s) (simp add: layout_fixed_up_fields p0 [symmetric])
      then show ?thesis
        using that unfolding r'
        by (simp add: layout_allocate_other_fields layout_fixed_up_mip_offsets)
    qed
    have 4: "pitch (secondary res') =
               pitch (swr (layout_surface_state env (stencil_descriptor res)))
             \<and> qpitch (secondary res') =
               qpitch (swr (layout_surface_state env (stencil_descriptor res)))"
      if cmp: "stencil_layout_comparable env res"
    proof -
      note sd = stencil_descriptor_layout [OF assms(2) cmp]
      have pq: "pitch (swr res') = pitch (swr (layout_surface_state env res))"
        "qpitch (swr res') = qpitch (swr (layout_surface_state env res))"
        by (subst s, simp add: layout_fixed_up_fields)+
      have nz: "util_format_get_blocksize env (format (base res)) \<noteq> 0"
        and fit: "unat (pitch (swr (layout_surface_state env (stencil_descriptor res))))
                    * unat (util_format_get_blocksize env (format (base res))) < 2 ^ 32"
        using cmp by (simp_all add: stencil_layout_comparable_def)
      have "pitch (secondary res') =
              pitch (swr res') div util_format_get_blocksize env (format (base res))"
        by (subst 1) simp
      also have "\<dots> = pitch (swr (layout_surface_state env (stencil_descriptor res)))"
        unfolding pq sd(2) by (rule word_mult_div_cancel [OF nz fit])
      finally have a: "pitch (secondary res') =
                         pitch (swr (layout_surface_state env (stencil_descriptor res)))" .
      have "qpitch (secondary res') = qpitch (swr res')"
        by (subst 1) simp
      then have b: "qpitch (secondary res') =
                      qpitch (swr (layout_surface_state env (stencil_descriptor res)))"
        by (simp add: pq sd(1))
      from a b show ?thesis by blast
    qed
    from 1 2 3 4 show ?thesis by blast
  qed
  from yes no show ?thesis by blast
qed

theorem stencil_surface_on_allocation_witness:
  "util_format_has_depth sample_env (PIPE_FORMAT ''Z24_UNORM_S8_UINT'')
   \<and> util_format_has_stencil sample_env (PIPE_FORMAT ''Z24_UNORM_S8_UINT'')
   \<and> stencil_layout_comparable sample_env
       (new_resource sample_env (sample_texture (PIPE_FORMAT ''Z24_UNORM_S8_UINT'')
          PIPE_TEXTURE_2D 4 4 1 0 {PIPE_BIND_SAMPLER_VIEW}))
   \<and> (\<exists>res' h'.
         swr_texture_layout sample_env sample_heap
           (new_resource sample_env (sample_texture (PIPE_FORMAT ''Z24_UNORM_S8_UINT'')
              PIPE_TEXTURE_2D 4 4 1 0 {PIPE_BIND_SAMPLER_VIEW})) True = Inr (True, res', h')
         \<and> pitch (swr res') = 16
         \<and> secondary res' =
             (swr res')\<lparr>swr_format := SWR ''R8_UINT'', pitch := 4,
                        pBaseAddress := pBaseAddress (secondary res')\<rparr>
         \<and> secondary_mip_offsets res' 0 =
             ComputeSurfaceOffset sample_env 0
               ((secondary res')\<lparr>pBaseAddress := pBaseAddress (swr res')\<rparr>)
         \<and> pitch (secondary res') =
             pitch (swr (layout_surface_state sample_env (stencil_descriptor
               (new_resource sample_env (sample_texture (PIPE_FORMAT ''Z24_UNORM_S8_UINT'')
                  PIPE_TEXTURE_2D 4 4 1 0 {PIPE_BIND_SAMPLER_VIEW})))))
         \<and> qpitch (secondary res') =
             qpitch (swr (layout_surface_state sample_env (stencil_descriptor
               (new_resource sample_env (sample_texture (PIPE_FORMAT ''Z24_UNORM_S8_UINT'')
                  PIPE_TEXTURE_2D 4 4 1 0 {PIPE_BIND_SAMPLER_VIEW}))))))
   \<and> (\<exists>res' h'.
         swr_texture_layout sample_env sample_heap
           (new_resource sample_env (sample_texture (PIPE_FORMAT ''Z24_UNORM_S8_UINT'')
              PIPE_TEXTURE_2D 4 4 1 0 {PIPE_BIND_SAMPLER_VIEW})) False = Inr (True, res', h')
         \<and> secondary res' = zero_surface sample_env)"
proof -
  let ?pt = "sample_texture (PIPE_FORMAT ''Z24_UNORM_S8_UINT'') PIPE_TEXTURE_2D 4 4 1 0
               {PIPE_BIND_SAMPLER_VIEW}"
  let ?res = "new_resource sample_env ?pt"
  have 2: "util_format_has_depth sample_env (PIPE_FORMAT ''Z24_UNORM_S8_UINT'')"
     "util_format_has_stencil sample_env (PIPE_FORMAT ''Z24_UNORM_S8_UINT'')"
     "util_format_get_blocksize sample_env (PIPE_FORMAT ''Z24_UNORM_S8_UINT'') = 4"
    by (simp_all add: sample_defs format_query_defs)
  have f: "format (base ?res) = PIPE_FORMAT ''Z24_UNORM_S8_UINT''"
    "last_level (base ?res) = 0"
    "secondary ?res = zero_surface sample_env"
    by (simp_all add: sample_defs)
  have hd: "util_format_has_depth sample_env (format (base ?res))"
    and hs: "util_format_has_stencil sample_env (format (base ?res))"
    using 2 by (simp_all add: f)
  have sp: "pitch (swr (layout_surface_state sample_env (stencil_descriptor ?res))) = 4"
    by (simp add: stencil_descriptor_def layout_eval_defs sample_defs format_query_defs Let_def)
  have cmp: "stencil_layout_comparable sample_env ?res"
    unfolding stencil_layout_comparable_def sp
    by (simp add: sample_defs format_query_defs)
  have t: "total_size (swr (layout_surface_state sample_env ?res)) \<le> SWR_MAX_TEXTURE_SIZE"
    by (simp add: zs_4x4_layout SWR_MAX_TEXTURE_SIZE_def)
  from swr_texture_layout_Inr_fixup [OF zs_4x4_layout(1), of sample_heap True] t
  obtain res' h' where acc:
    "swr_texture_layout sample_env sample_heap ?res True = Inr (True, res', h')"
    and p: "pitch (swr res') = 16"
    by (auto simp: zs_4x4_layout)
  note on = stencil_surface_on_allocation [OF acc hd hs]
  have a: "secondary res' =
             (swr res')\<lparr>swr_format := SWR ''R8_UINT'', pitch := 4,
                        pBaseAddress := pBaseAddress (secondary res')\<rparr>"
    and b: "secondary_mip_offsets res' 0 =
             ComputeSurfaceOffset sample_env 0
               ((secondary res')\<lparr>pBaseAddress := pBaseAddress (swr res')\<rparr>)"
    and c: "pitch (secondary res') =
              pitch (swr (layout_surface_state sample_env (stencil_descriptor ?res)))"
       "qpitch (secondary res') =
              qpitch (swr (layout_surface_state sample_env (stencil_descriptor ?res)))"
    using on cmp by (simp_all add: f p 2)
  from swr_texture_layout_dry_accept [OF zs_4x4_layout(1) t, of sample_heap]
  have dry: "swr_texture_layout sample_env sample_heap ?res False =
               Inr (True, layout_fixed_up sample_env ?res (SWR ''R24_UNORM_X8_TYPELESS''),
                    sample_heap)" .
  from stencil_surface_on_allocation [OF dry hd hs]
  have d: "secondary (layout_fixed_up sample_env ?res (SWR ''R24_UNORM_X8_TYPELESS''))
             = zero_surface sample_env"
    by (simp add: f)
  from acc p a b c have e1: "\<exists>res' h'.
         swr_texture_layout sample_env sample_heap ?res True = Inr (True, res', h')
         \<and> pitch (swr res') = 16
         \<and> secondary res' =
             (swr res')\<lparr>swr_format := SWR ''R8_UINT'', pitch := 4,
                        pBaseAddress := pBaseAddress (secondary res')\<rparr>
         \<and> secondary_mip_offsets res' 0 =
             ComputeSurfaceOffset sample_env 0
               ((secondary res')\<lparr>pBaseAddress := pBaseAddress (swr res')\<rparr>)
         \<and> pitch (secondary res') =
             pitch (swr (layout_surface_state sample_env (stencil_descriptor ?res)))
         \<and> qpitch (secondary res') =
             qpitch (swr (layout_surface_state sample_env (stencil_descriptor ?res)))"
    by blast
  from dry d have e2: "\<exists>res' h'.
         swr_texture_layout sample_env sample_heap ?res False = Inr (True, res', h')
         \<and> secondary res' = zero_surface sample_env"
    by blast
  from 2(1,2) cmp e1 e2 show ?thesis by blast
qed

section \<open>Allocation failure\<close>

text \<open>
  C5.  The layout computation does not look at what \<^verbatim>\<open>AlignedMalloc\<close>
  returns.  With an allocator that serves no request, the call on a 4x4
  depth+stencil texture still returns true, with both base addresses null.
  With an allocator that serves only the first request, it returns true
  again: the primary block of 64 bytes stays allocated, the stencil request
  of 16 bytes has failed, and nothing has been released.
\<close>

theorem allocation_failure_not_reported:
  "(\<exists>res' h'.
      swr_texture_layout sample_env exhausted_heap
        (new_resource sample_env (sample_texture (PIPE_FORMAT ''Z24_UNORM_S8_UINT'') PIPE_TEXTURE_2D
           4 4 1 0 {PIPE_BIND_SAMPLER_VIEW})) True = Inr (True, res', h')
      \<and> pBaseAddress (swr res') = None \<and> pBaseAddress (secondary res') = None
      \<and> released h' = [])
   \<and> (\<exists>res' h'.
      swr_texture_layout sample_env one_block_heap
        (new_resource sample_env (sample_texture (PIPE_FORMAT ''Z24_UNORM_S8_UINT'') PIPE_TEXTURE_2D
           4 4 1 0 {PIPE_BIND_SAMPLER_VIEW})) True = Inr (True, res', h')
      \<and> pBaseAddress (swr res') = Some 64 \<and> pBaseAddress (secondary res') = None
      \<and> allocations h' = [(64, Some 64), (16, None)] \<and> released h' = [])"
proof -
  let ?pt = "sample_texture (PIPE_FORMAT ''Z24_UNORM_S8_UINT'') PIPE_TEXTURE_2D 4 4 1 0
               {PIPE_BIND_SAMPLER_VIEW}"
  let ?R = "layout_fixed_up sample_env (new_resource sample_env ?pt) (SWR ''R24_UNORM_X8_TYPELESS'')"
  have t: "\<not> total_size (swr ?R) > SWR_MAX_TEXTURE_SIZE"
    by (simp add: layout_fixed_up_total zs_4x4_layout SWR_MAX_TEXTURE_SIZE_def)
  have ts: "total_size (swr ?R) = 64"
    by (simp add: layout_fixed_up_total zs_4x4_layout)
  have ds: "has_depth ?R" "has_stencil ?R"
    by (simp_all add: layout_fixed_up_fields) (simp_all add: sample_defs format_query_defs)
  have lf: "layout_fmt sample_env (base ?R) = PIPE_FORMAT ''Z24_UNORM_S8_UINT''"
    by (simp add: layout_fixed_up_fields) (simp add: layout_fmt_def sample_defs format_query_defs)
  have ss: "secondary_size (secondary_surface sample_env (PIPE_FORMAT ''Z24_UNORM_S8_UINT'')
              ((swr ?R)\<lparr>pBaseAddress := p\<rparr>)) = 16" for p
    by (simp add: secondary_size_def secondary_surface_def layout_fixed_up_fields zs_4x4_layout)
       (simp add: sample_defs format_query_defs)
  have eq: "swr_texture_layout sample_env h (new_resource sample_env ?pt) True =
              Inr (True, fst (layout_allocate sample_env h ?R),
                   snd (layout_allocate sample_env h ?R))" for h
    using swr_texture_layout_unfold [OF zs_4x4_layout(1), of h True] t by simp
  note la = layout_allocate_depth_stencil [OF ds, of sample_env, unfolded lf]
  have s: "swr (fst (layout_allocate sample_env h ?R)) =
             (swr ?R)\<lparr>pBaseAddress := malloc_result h (length (allocations h)) 64\<rparr>" for h
    by (simp add: layout_allocate_swr AlignedMalloc_def Let_def ts)
  have a: "pBaseAddress (swr (fst (layout_allocate sample_env exhausted_heap ?R))) = None"
          "pBaseAddress (secondary (fst (layout_allocate sample_env exhausted_heap ?R))) = None"
          "released (snd (layout_allocate sample_env exhausted_heap ?R)) = []"
    by (simp_all add: la(4) layout_allocate_other_fields) (simp_all add: exhausted_heap_def)
  have b: "pBaseAddress (swr (fst (layout_allocate sample_env one_block_heap ?R))) = Some 64"
          "pBaseAddress (secondary (fst (layout_allocate sample_env one_block_heap ?R))) = None"
          "released (snd (layout_allocate sample_env one_block_heap ?R)) = []"
    by (simp_all add: la(4) layout_allocate_other_fields) (simp_all add: one_block_heap_def)
  have c: "allocations (snd (layout_allocate sample_env one_block_heap ?R)) =
             [(64, Some 64), (16, None)]"
    by (simp add: la(3) b ts s ss) (simp add: one_block_heap_def)
  from eq [of exhausted_heap] a
  have e1: "\<exists>res' h'.
      swr_texture_layout sample_env exhausted_heap (new_resource sample_env ?pt) True = Inr (True, res', h')
      \<and> pBaseAddress (swr res') = None \<and> pBaseAddress (secondary res') = None
      \<and> released h' = []"
    by blast
  from eq [of one_block_heap] b c
  have e2: "\<exists>res' h'.
      swr_texture_layout sample_env one_block_heap (new_resource sample_env ?pt) True = Inr (True, res', h')
      \<and> pBaseAddress (swr res') = Some 64 \<and> pBaseAddress (secondary res') = None
      \<and> allocations h' = [(64, Some 64), (16, None)] \<and> released h' = []"
    by blast
  from e1 e2 show ?thesis by (rule conjI)
qed

section \<open>Creation of displayable resources\<close>

text \<open>
  C10.  In \<^verbatim>\<open>swr_resource_create\<close>, once the resource structure has been
  obtained, a texture bound as display target, scanout or shared is laid out
  without allocation and the boolean that the layout returns, which is the
  outcome of the size check, has no part in the result: creation yields the
  null result exactly when the window system fails to create the display
  target.  The witness is a displayable texture whose total size is one byte
  over 4 GiB: the layout returns false and the resource is created.
\<close>

theorem displayable_resource_skips_size_check:
  assumes "calloc_ok h"
    and "swr_resource_is_texture env templat"
    and "bind templat \<inter> {PIPE_BIND_DISPLAY_TARGET, PIPE_BIND_SCANOUT, PIPE_BIND_SHARED} \<noteq> {}"
    and "layout_precondition env templat"
  shows "\<exists>r ok res' h'.
           swr_texture_layout env h (new_resource env templat) False = Inr (ok, res', h')
           \<and> ok = (total_size (swr res') \<le> SWR_MAX_TEXTURE_SIZE)
           \<and> swr_resource_create env h templat = Inr (r, h')
           \<and> (r = None) =
               (displaytarget_create env (bind templat) (format templat)
                  (align (width0 templat) (surface_halign env templat))
                  (align (height0 templat) (surface_valign env templat)) 64 = None)"
proof -
  have b: "base (new_resource env templat) = templat" by (simp add: new_resource_def)
  from swr_texture_layout_dry_run [of env "new_resource env templat" h] assms(4)
  obtain f where l: "swr_texture_layout env h (new_resource env templat) False =
           Inr (total_size (swr (layout_surface_state env (new_resource env templat)))
                  \<le> SWR_MAX_TEXTURE_SIZE,
                layout_fixed_up env (new_resource env templat) f, h)"
    by (auto simp: b)
  let ?R = "layout_fixed_up env (new_resource env templat) f"
  note d = swr_displaytarget_layout_fixed_up [of env "new_resource env templat" f, unfolded b]
  have c: "swr_resource_create env h templat =
             (case swr_displaytarget_layout env ?R of
                (False, _) \<Rightarrow> Inr (None, h) | (True, res2) \<Rightarrow> Inr (Some res2, h))"
    using assms(1-3) by (simp add: swr_resource_create_def Let_def b l)
  obtain dok res2 where dl: "swr_displaytarget_layout env ?R = (dok, res2)"
    by (cases "swr_displaytarget_layout env ?R")
  have "swr_resource_create env h templat = Inr (if dok then Some res2 else None, h)"
    using c dl by (cases dok) simp_all
  moreover have "dok = (displaytarget_create env (bind templat) (format templat)
                  (align (width0 templat) (surface_halign env templat))
                  (align (height0 templat) (surface_valign env templat)) 64 \<noteq> None)"
    using d dl by simp
  ultimately show ?thesis
    using l by (auto simp: layout_fixed_up_total)
qed


theorem displayable_resource_skips_size_check_witness:
  "calloc_ok sample_heap
   \<and> swr_resource_is_texture sample_env
       (sample_texture (PIPE_FORMAT ''R8_UNORM'') PIPE_TEXTURE_2D 6700417 641 1 0
          {PIPE_BIND_DISPLAY_TARGET})
   \<and> bind (sample_texture (PIPE_FORMAT ''R8_UNORM'') PIPE_TEXTURE_2D 6700417 641 1 0
          {PIPE_BIND_DISPLAY_TARGET})
       \<inter> {PIPE_BIND_DISPLAY_TARGET, PIPE_BIND_SCANOUT, PIPE_BIND_SHARED} \<noteq> {}
   \<and> layout_precondition sample_env
       (sample_texture (PIPE_FORMAT ''R8_UNORM'') PIPE_TEXTURE_2D 6700417 641 1 0
          {PIPE_BIND_DISPLAY_TARGET})
   \<and> (\<exists>res' h'.
         swr_texture_layout sample_env sample_heap
           (new_resource sample_env (sample_texture (PIPE_FORMAT ''R8_UNORM'') PIPE_TEXTURE_2D
              6700417 641 1 0 {PIPE_BIND_DISPLAY_TARGET})) False = Inr (False, res', h')
         \<and> SWR_MAX_TEXTURE_SIZE < total_size (swr res'))
   \<and> (\<exists>r h'.
         swr_resource_create sample_env sample_heap
           (sample_texture (PIPE_FORMAT ''R8_UNORM'') PIPE_TEXTURE_2D 6700417 641 1 0
              {PIPE_BIND_DISPLAY_TARGET}) = Inr (Some r, h'))"
proof -
  let ?pt = "sample_texture (PIPE_FORMAT ''R8_UNORM'') PIPE_TEXTURE_2D 6700417 641 1 0
               {PIPE_BIND_DISPLAY_TARGET}"
  have 1: "calloc_ok sample_heap" by (simp add: sample_heap_def)
  have 2: "swr_resource_is_texture sample_env ?pt" by (simp add: sample_defs)
  have 3: "bind ?pt \<inter> {PIPE_BIND_DISPLAY_TARGET, PIPE_BIND_SCANOUT, PIPE_BIND_SHARED} \<noteq> {}"
    by (simp add: sample_defs)
  have 4: "layout_precondition sample_env ?pt"
    by (simp add: layout_precondition_def layout_fmt_def sample_defs format_query_defs
        mesa_to_swr_format_def mesa2swr_def)
  have t: "total_size (swr (layout_surface_state sample_env (new_resource sample_env ?pt)))
              = SWR_MAX_TEXTURE_SIZE + 1"
    by (simp add: total_size_def layout_eval_defs sample_defs format_query_defs Let_def
        SWR_MAX_TEXTURE_SIZE_def)
  have lt: "\<not> SWR_MAX_TEXTURE_SIZE + 1 \<le> SWR_MAX_TEXTURE_SIZE"
    by (simp add: SWR_MAX_TEXTURE_SIZE_def)
  have b: "base (new_resource sample_env ?pt) = ?pt" by (simp add: new_resource_def)
  have dt: "displaytarget_create sample_env b f w h a \<noteq> None" for b f w h a
    by (simp add: sample_env_def)
  from swr_texture_layout_dry_run [of sample_env "new_resource sample_env ?pt" sample_heap] 4
  have dry: "\<exists>res'. swr_texture_layout sample_env sample_heap (new_resource sample_env ?pt) False
               = Inr (False, res', sample_heap)"
    by (auto simp: b t lt)
  from displayable_resource_skips_size_check [OF 1 2 3 4]
  obtain r ok res' h' where all:
    "swr_texture_layout sample_env sample_heap (new_resource sample_env ?pt) False = Inr (ok, res', h')
     \<and> ok = (total_size (swr res') \<le> SWR_MAX_TEXTURE_SIZE)
     \<and> swr_resource_create sample_env sample_heap ?pt = Inr (r, h')
     \<and> (r = None) =
               (displaytarget_create sample_env (bind ?pt) (format ?pt)
                  (align (width0 ?pt) (surface_halign sample_env ?pt))
                  (align (height0 ?pt) (surface_valign sample_env ?pt)) 64 = None)"
    by (elim exE)
  note l = all [THEN conjunct1]
    and o = all [THEN conjunct2, THEN conjunct1]
    and c = all [THEN conjunct2, THEN conjunct2, THEN conjunct1]
    and n = all [THEN conjunct2, THEN conjunct2, THEN conjunct2]
  from dry l have "\<not> ok" by auto
  with o have big: "SWR_MAX_TEXTURE_SIZE < total_size (swr res')" by (simp add: not_le)
  from n dt obtain r' where "r = Some r'" by (cases r) auto
  with c have 6: "\<exists>r h'. swr_resource_create sample_env sample_heap ?pt = Inr (Some r, h')"
    by blast
  from l \<open>\<not> ok\<close> big
  have 5: "\<exists>res' h'. swr_texture_layout sample_env sample_heap (new_resource sample_env ?pt) False
             = Inr (False, res', h') \<and> SWR_MAX_TEXTURE_SIZE < total_size (swr res')"
    by auto
  from 1 2 3 4 5 6 show ?thesis by blast
qed

end
